theory Spec2Isabelle
  imports Complex_Main "HOL-Library.Log_Nat"
begin

section \<open>Strings and regular expressions of the host language\<close>

text \<open>
  A string is a list of code units. The model covers text whose code units are below 256
  (ASCII and Latin-1), which is what \<^typ>\<open>char\<close> holds; \<open>length\<close> then counts what
  the source's \<open>.length\<close> counts. An absent, \<open>null\<close> or \<open>undefined\<close> string that the source
  only ever reads through \<open>x || ''\<close> or a truthiness test is the empty string.
\<close>

definition is_word :: "char \<Rightarrow> bool" where
  "is_word c = (let n = (of_char c :: nat) in
     (48 \<le> n \<and> n \<le> 57) \<or> (65 \<le> n \<and> n \<le> 90) \<or> (97 \<le> n \<and> n \<le> 122) \<or> n = 95)"

definition is_digit :: "char \<Rightarrow> bool" where
  "is_digit c = (let n = (of_char c :: nat) in 48 \<le> n \<and> n \<le> 57)"

definition is_space :: "char \<Rightarrow> bool" where
  "is_space c = (let n = (of_char c :: nat) in (9 \<le> n \<and> n \<le> 13) \<or> n = 32 \<or> n = 160)"

definition is_line_terminator :: "char \<Rightarrow> bool" where
  "is_line_terminator c = (let n = (of_char c :: nat) in n = 10 \<or> n = 13)"

text \<open>\<open>toLowerCase\<close> on one code unit: A-Z and the Latin-1 capitals move up by 32.\<close>

definition lower_char :: "char \<Rightarrow> char" where
  "lower_char c = (let n = (of_char c :: nat) in
     if (65 \<le> n \<and> n \<le> 90) \<or> (192 \<le> n \<and> n \<le> 222 \<and> n \<noteq> 215)
     then char_of (n + 32) else c)"

definition toLowerCase :: "string \<Rightarrow> string" where
  "toLowerCase s = map lower_char s"

definition trim :: "string \<Rightarrow> string" where
  "trim s = rev (dropWhile is_space (rev (dropWhile is_space s)))"

fun startsWith :: "string \<Rightarrow> string \<Rightarrow> bool" where
  "startsWith s [] = True"
| "startsWith [] (c # cs) = False"
| "startsWith (d # ds) (c # cs) = (if c = d then startsWith ds cs else False)"

fun str_includes :: "string \<Rightarrow> string \<Rightarrow> bool" where
  "str_includes [] t = (t = [])"
| "str_includes (c # cs) t = (if startsWith (c # cs) t then True else str_includes cs t)"

definition endsWith :: "string \<Rightarrow> string \<Rightarrow> bool" where
  "endsWith s t = startsWith (rev s) (rev t)"

text \<open>
  \<open>s.split(/\s+/)\<close>: the pieces between maximal runs of white space; a run at either end
  leaves an empty piece there, and the empty string gives one empty piece.
\<close>

function split_ws_from :: "string \<Rightarrow> string \<Rightarrow> string list" where
  "split_ws_from cur [] = [rev cur]"
| "split_ws_from cur (c # cs) =
     (if is_space c then rev cur # split_ws_from [] (dropWhile is_space cs)
      else split_ws_from (c # cur) cs)"
  by pat_completeness auto
termination
  by (relation "measure (\<lambda>(cur, s). length s)")
     (auto simp: less_Suc_eq_le length_dropWhile_le)

definition split_ws :: "string \<Rightarrow> string list" where
  "split_ws s = split_ws_from [] s"

text \<open>\<open>s.replace(/\s+/g, ' ')\<close>: every maximal run of white space becomes one blank.\<close>

function collapse_ws :: "string \<Rightarrow> string" where
  "collapse_ws [] = []"
| "collapse_ws (c # cs) =
     (if is_space c then CHR '' '' # collapse_ws (dropWhile is_space cs)
      else c # collapse_ws cs)"
  by pat_completeness auto
termination
  by (relation "measure length") (auto simp: less_Suc_eq_le length_dropWhile_le)

text \<open>Decimal printing of a number, as template strings and \<open>toFixed(2)\<close> do.\<close>

function show_nat :: "nat \<Rightarrow> string" where
  "show_nat n = (if n < 10 then [''0123456789'' ! n]
                 else show_nat (n div 10) @ [''0123456789'' ! (n mod 10)])"
  by pat_completeness auto
termination
  by (relation "measure id") auto

definition show_int :: "int \<Rightarrow> string" where
  "show_int i = (if i < 0 then CHR ''-'' # show_nat (nat (- i)) else show_nat (nat i))"

definition math_round :: "rat \<Rightarrow> int" where
  "math_round x = \<lfloor>x + 1 / 2\<rfloor>"

definition toFixed2 :: "rat \<Rightarrow> string" where
  "toFixed2 x = (let n = nat (math_round (x * 100)) in
     show_nat (n div 100) @ ''.'' @ show_nat (n mod 100 div 10) @ show_nat (n mod 10))"

subsection \<open>Numbers\<close>

text \<open>
  A number of the source is a binary64 double. It is modelled by its value, a rational,
  and every operation of the source that can round is modelled by the exact operation
  followed by the rounding that IEEE 754 prescribes: to the nearest double, a tie going
  to the even significand. A decimal literal of the source is the double nearest to it.
  The significand has 53 bits; below \<open>2 ^ - 1022\<close> the doubles are spaced by
  \<open>2 ^ - 1074\<close>. Overflow to infinity is left out: the numbers of this program stay far
  below \<open>2 ^ 1024\<close>. Comparisons, \<open>Math.max\<close>, \<open>Math.min\<close>, \<open>Math.abs\<close>, \<open>Math.round\<close>
  and \<open>toFixed\<close> are exact on the values.
\<close>

definition pow2 :: "int \<Rightarrow> rat" where
  "pow2 e = (if 0 \<le> e then 2 ^ nat e else 1 / 2 ^ nat (- e))"

text \<open>The exponent of the power of two at or below a positive rational.\<close>

definition ilog2 :: "rat \<Rightarrow> int" where
  "ilog2 x = (let (p, q) = quotient_of x; e0 = bitlen p - bitlen q
              in if pow2 e0 \<le> x then e0 else e0 - 1)"

definition round_even :: "rat \<Rightarrow> int" where
  "round_even x = (let f = \<lfloor>x\<rfloor>; r = x - of_int f
                   in if r < 1 / 2 then f else if r > 1 / 2 then f + 1
                      else if even f then f else f + 1)"

definition fl :: "rat \<Rightarrow> rat" where
  "fl x = (if x = 0 then 0
           else let e = max (ilog2 \<bar>x\<bar>) (- 1022) - 52
                in of_int (round_even (x / pow2 e)) * pow2 e)"

text \<open>A decimal literal, and the three rounding operations.\<close>

definition dbl :: "rat \<Rightarrow> rat" where
  "dbl x = fl x"

definition dadd :: "rat \<Rightarrow> rat \<Rightarrow> rat" where
  "dadd a b = fl (a + b)"

definition dmul :: "rat \<Rightarrow> rat \<Rightarrow> rat" where
  "dmul a b = fl (a * b)"

definition ddiv :: "rat \<Rightarrow> rat \<Rightarrow> rat" where
  "ddiv a b = fl (a / b)"

subsection \<open>Regular expressions\<close>

text \<open>
  The patterns of the source are written in this syntax. \<open>Never\<close> stands for an
  alternative that no text of the model can contain (an emoji, two code units above 255).
  The source only ever asks whether a pattern matches (\<open>test\<close>), so the matcher returns a
  truth value: it walks the text with the previous code unit at hand (for \<open>^\<close> and
  \<open>\b\<close>) and a continuation for what follows the pattern.
\<close>

datatype rx =
    Lit string | Never | Dot | Word | NonWord | Space | NonSpace | Digit | OneOf string
  | Bol | Eol | Wb
  | Seq rx rx | Alt rx rx | Star rx | Opt rx | Plus rx | Rep nat nat rx

type_synonym cont = "char option \<Rightarrow> string \<Rightarrow> bool"

fun strip_prefix :: "string \<Rightarrow> string \<Rightarrow> string option" where
  "strip_prefix [] s = Some s"
| "strip_prefix (c # cs) [] = None"
| "strip_prefix (c # cs) (d # ds) = (if c = d then strip_prefix cs ds else None)"

fun last_of :: "char option \<Rightarrow> string \<Rightarrow> char option" where
  "last_of p [] = p"
| "last_of p (c # cs) = last_of (Some c) cs"

definition at_boundary :: "char option \<Rightarrow> string \<Rightarrow> bool" where
  "at_boundary p s =
     ((case p of None \<Rightarrow> False | Some c \<Rightarrow> is_word c)
      \<noteq> (case s of [] \<Rightarrow> False | c # _ \<Rightarrow> is_word c))"

fun one_char :: "(char \<Rightarrow> bool) \<Rightarrow> cont \<Rightarrow> cont" where
  "one_char P k p [] = False"
| "one_char P k p (c # cs) = (if P c then k (Some c) cs else False)"

text \<open>
  Iteration: each round must consume text, so the length of the text bounds the rounds.
\<close>

fun star_aux :: "nat \<Rightarrow> (cont \<Rightarrow> cont) \<Rightarrow> cont \<Rightarrow> cont" where
  "star_aux 0 m k p s = k p s"
| "star_aux (Suc n) m k p s =
     (if m (\<lambda>p' s'. if length s' < length s then star_aux n m k p' s' else False) p s
      then True else k p s)"

fun rep_aux :: "nat \<Rightarrow> nat \<Rightarrow> (cont \<Rightarrow> cont) \<Rightarrow> cont \<Rightarrow> cont" where
  "rep_aux lo 0 m k p s = (if lo = 0 then k p s else False)"
| "rep_aux lo (Suc hi) m k p s =
     (if m (rep_aux (lo - 1) hi m k) p s then True
      else if lo = 0 then k p s else False)"

primrec rx_match :: "rx \<Rightarrow> cont \<Rightarrow> cont" where
  "rx_match (Lit l) k =
     (\<lambda>p s. case strip_prefix l s of None \<Rightarrow> False | Some s' \<Rightarrow> k (last_of p l) s')"
| "rx_match Never k = (\<lambda>p s. False)"
| "rx_match Dot k = one_char (\<lambda>c. \<not> is_line_terminator c) k"
| "rx_match Word k = one_char is_word k"
| "rx_match NonWord k = one_char (\<lambda>c. \<not> is_word c) k"
| "rx_match Space k = one_char is_space k"
| "rx_match NonSpace k = one_char (\<lambda>c. \<not> is_space c) k"
| "rx_match Digit k = one_char is_digit k"
| "rx_match (OneOf cs) k = one_char (\<lambda>c. List.member cs c) k"
| "rx_match Bol k = (\<lambda>p s. if p = None then k p s else False)"
| "rx_match Eol k = (\<lambda>p s. if s = [] then k p s else False)"
| "rx_match Wb k = (\<lambda>p s. if at_boundary p s then k p s else False)"
| "rx_match (Seq a b) k = rx_match a (rx_match b k)"
| "rx_match (Alt a b) k = (\<lambda>p s. if rx_match a k p s then True else rx_match b k p s)"
| "rx_match (Star a) k = (\<lambda>p s. star_aux (length s) (rx_match a) k p s)"
| "rx_match (Opt a) k = (\<lambda>p s. if rx_match a k p s then True else k p s)"
| "rx_match (Plus a) k = rx_match a (\<lambda>p s. star_aux (length s) (rx_match a) k p s)"
| "rx_match (Rep lo hi a) k = rep_aux lo hi (rx_match a) k"

fun rx_search :: "rx \<Rightarrow> char option \<Rightarrow> string \<Rightarrow> bool" where
  "rx_search r p [] = rx_match r (\<lambda>_ _. True) p []"
| "rx_search r p (c # cs) =
     (if rx_match r (\<lambda>_ _. True) p (c # cs) then True else rx_search r (Some c) cs)"

text \<open>\<open>/r/.test(s)\<close>: the pattern matches somewhere in the text.\<close>

definition rx_test :: "rx \<Rightarrow> string \<Rightarrow> bool" where
  "rx_test r s = rx_search r None s"

text \<open>
  \<open>/r/i.test(s)\<close>: code units are compared after folding case. On code units below 256
  the folding identifies exactly the pairs that \<open>lower_char\<close> identifies, and no class
  of the syntax separates such a pair, so the test folds the pattern's literals and the
  text and then matches.
\<close>

primrec rx_lower :: "rx \<Rightarrow> rx" where
  "rx_lower (Lit l) = Lit (toLowerCase l)"
| "rx_lower Never = Never"
| "rx_lower Dot = Dot"
| "rx_lower Word = Word"
| "rx_lower NonWord = NonWord"
| "rx_lower Space = Space"
| "rx_lower NonSpace = NonSpace"
| "rx_lower Digit = Digit"
| "rx_lower (OneOf cs) = OneOf (toLowerCase cs)"
| "rx_lower Bol = Bol"
| "rx_lower Eol = Eol"
| "rx_lower Wb = Wb"
| "rx_lower (Seq a b) = Seq (rx_lower a) (rx_lower b)"
| "rx_lower (Alt a b) = Alt (rx_lower a) (rx_lower b)"
| "rx_lower (Star a) = Star (rx_lower a)"
| "rx_lower (Opt a) = Opt (rx_lower a)"
| "rx_lower (Plus a) = Plus (rx_lower a)"
| "rx_lower (Rep lo hi a) = Rep lo hi (rx_lower a)"

definition rx_test_i :: "rx \<Rightarrow> string \<Rightarrow> bool" where
  "rx_test_i r s = rx_test (rx_lower r) (toLowerCase s)"

definition seqs :: "rx list \<Rightarrow> rx" where
  "seqs rs = foldr Seq rs (Lit [])"

definition alts :: "rx list \<Rightarrow> rx" where
  "alts rs = foldr Alt rs Never"

definition words :: "string list \<Rightarrow> rx" where
  "words ws = alts (map Lit ws)"

text \<open>
  A regular expression object is a pattern with its \<open>i\<close> flag. A list of them is tested in
  order until one matches, as the source's loops over its pattern arrays do.
\<close>

type_synonym regexp = "rx \<times> bool"

definition re :: "rx list \<Rightarrow> regexp" where
  "re rs = (seqs rs, False)"

definition re_i :: "rx list \<Rightarrow> regexp" where
  "re_i rs = (seqs rs, True)"

fun test :: "regexp \<Rightarrow> string \<Rightarrow> bool" where
  "test (r, ignoreCase) s = (if ignoreCase then rx_test_i r s else rx_test r s)"

fun any_test :: "regexp list \<Rightarrow> string \<Rightarrow> bool" where
  "any_test [] s = False"
| "any_test (r # rs) s = (if test r s then True else any_test rs s)"

section \<open>Analyzer: deterministic classification\<close>

datatype questionType =
  Yes_no | Info_seeking | Action_request | Opinion | Status_check | Scheduling | Approval | General

datatype priority = Low | Normal | High | Urgent

fun questionType_name :: "questionType \<Rightarrow> string" where
  "questionType_name Yes_no = ''yes_no''"
| "questionType_name Info_seeking = ''info_seeking''"
| "questionType_name Action_request = ''action_request''"
| "questionType_name Opinion = ''opinion''"
| "questionType_name Status_check = ''status_check''"
| "questionType_name Scheduling = ''scheduling''"
| "questionType_name Approval = ''approval''"
| "questionType_name General = ''general''"

fun priority_name :: "priority \<Rightarrow> string" where
  "priority_name Low = ''low''"
| "priority_name Normal = ''normal''"
| "priority_name High = ''high''"
| "priority_name Urgent = ''urgent''"

text \<open>
  The fields of a chat message that the analyzer reads. \<open>m_quotedMsgBody\<close> is
  \<open>message._data?.quotedMsg?.body\<close>.
\<close>

record message =
  m_body :: string
  m_fromMe :: bool
  m_mentionedIds :: "string list"
  m_hasQuotedMsg :: bool
  m_quotedMsgBody :: string

record analyzer =
  trackName :: string
  namePatterns :: "regexp list"

record question_analysis =
  qa_questionType :: questionType
  qa_priority :: priority
  qa_keywords :: "string list"
  qa_directedAtMe :: bool

record analysis =
  r_isMention :: bool
  r_isQuestion :: bool
  r_isDirectedQuestion :: bool
  r_isDirectMessage :: bool
  r_questionAnalysis :: "question_analysis option"

subsection \<open>Mention detection\<close>

text \<open>
  \<open>_escapeRegex\<close> makes the name a literal of the pattern, so the escaped name between two
  \<open>\b\<close> is the literal \<open>Lit\<close> of the name itself.
\<close>

definition buildNamePatterns :: "string \<Rightarrow> regexp list" where
  "buildNamePatterns fullName =
     (if fullName = [] \<or> trim fullName = [] then []
      else re_i [Wb, Lit fullName, Wb]
           # map (\<lambda>part. re_i [Wb, Lit part, Wb])
                 (filter (\<lambda>part. length part \<ge> 3) (split_ws (trim fullName))))"

definition setTrackName :: "string \<Rightarrow> analyzer" where
  "setTrackName name = \<lparr>trackName = name, namePatterns = buildNamePatterns name\<rparr>"

definition matchesAnyNamePattern :: "analyzer \<Rightarrow> string \<Rightarrow> bool" where
  "matchesAnyNamePattern a text = any_test (namePatterns a) text"

text \<open>\<open>id.split('@')[0]\<close>: the part of an id before its first \<open>@\<close>.\<close>

definition before_at :: "string \<Rightarrow> string" where
  "before_at s = takeWhile (\<lambda>c. c \<noteq> CHR ''@'') s"

definition isMention :: "analyzer \<Rightarrow> message \<Rightarrow> string \<Rightarrow> string \<Rightarrow> bool" where
  "isMention a message myId myLid =
     (let myIds = (if myId \<noteq> [] then [myId, before_at myId] else [])
                  @ (if myLid \<noteq> [] then [myLid, before_at myLid] else []) in
      if m_mentionedIds message \<noteq> [] \<and> myIds \<noteq> []
         \<and> list_ex (\<lambda>mentionStr. List.member myIds mentionStr
                                  \<or> List.member myIds (before_at mentionStr))
                    (m_mentionedIds message)
      then True
      else if matchesAnyNamePattern a (m_body message) then True
      else if m_hasQuotedMsg message \<and> m_quotedMsgBody message \<noteq> []
              \<and> matchesAnyNamePattern a (m_quotedMsgBody message) then True
      else False)"

subsection \<open>Question detection\<close>

definition nonQuestionPatterns :: "regexp list" where
  "nonQuestionPatterns =
    [re_i [Bol, alts [Lit ''lol'', Lit ''haha'', Never, Never, Never, Never, Lit ''omg'', Lit ''wow'',
                      Lit ''nice'', Lit ''great'', Lit ''awesome'', Lit ''cool'', Lit ''ok'', Lit ''okay''],
           Star Space, Opt (Lit ''?''), Eol],
     re_i [Bol, words [''good morning'', ''good afternoon'', ''good evening'', ''gm'', ''ga''],
           Star Space, Opt (Lit ''?''), Eol],
     re_i [Bol, words [''hi'', ''hello'', ''hey'', ''sup'', ''yo''], Star Space, Opt (Lit ''?''), Eol],
     re_i [Bol, words [''right'', ''ikr'', ''i know right'', ''same'', ''true'', ''facts''],
           Star Space, Opt (Lit ''?''), Eol],
     re_i [Bol, words [''done'', ''sorted'', ''fixed'', ''handled'', ''resolved'', ''completed'',
                       ''finished'', ''sent'', ''updated'', ''approved'', ''confirmed'', ''noted'',
                       ''acknowledged'', ''received'', ''accepted'', ''rejected'', ''denied''],
           Star Space, Opt (OneOf ''.!''), Eol],
     re_i [Bol, words [''what'', ''wut'', ''wat''], Star Space, Star (Lit ''?''), Eol],
     re_i [Bol, words [''huh'', ''hmm'', ''eh'', ''ah'', ''oh''], Star Space, Opt (Lit ''?''), Eol],
     re_i [Bol, words [''really'', ''seriously'', ''for real''], Star Space, Opt (Lit ''?''), Eol],
     re [Bol, Plus (Lit ''?''), Eol],
     re [Bol, Star NonWord, Eol]]"

definition isNonQuestion :: "string \<Rightarrow> bool" where
  "isNonQuestion text =
     (let lower = trim (toLowerCase text) in
      if length lower < 5 then True
      else any_test nonQuestionPatterns lower)"

definition yesNoStarters :: regexp where
  "yesNoStarters =
     re_i [Bol, words [''is'', ''are'', ''was'', ''were'', ''do'', ''does'', ''did'', ''can'', ''could'',
                       ''would'', ''should'', ''will'', ''shall'', ''have'', ''has'', ''had'', ''may'',
                       ''might'', ''isn't'', ''aren't'', ''wasn't'', ''weren't'', ''don't'', ''doesn't'',
                       ''didn't'', ''can't'', ''couldn't'', ''wouldn't'', ''shouldn't'', ''won't''], Wb]"

definition approvalPatterns :: "regexp list" where
  "approvalPatterns =
    [re_i [Wb, words [''approve'', ''approved'', ''approval'', ''sign off'', ''sign-off'', ''greenlight'',
                      ''green light''], Wb, Star Dot, Lit ''?''],
     re_i [Wb, Lit ''can '', words [''i'', ''we''], Lit '' '',
           words [''go ahead'', ''proceed'', ''move forward'', ''start'', ''begin''], Wb],
     re_i [Wb, words [''is this'', ''does this'', ''are we''], Lit '' '',
           words [''ok'', ''okay'', ''good'', ''ready'', ''approved''], Wb],
     re_i [Wb, Lit ''permission to'', Wb],
     re_i [Wb, words [''ready to'', ''good to''], Lit '' '',
           words [''go'', ''send'', ''ship'', ''launch'', ''submit'', ''publish''], Wb, Star Dot, Lit ''?'']]"

definition schedulePatterns :: "regexp list" where
  "schedulePatterns =
    [re_i [Wb, words [''when'', ''what time'', ''what day'', ''which day''], Wb, Star Dot, Wb,
           words [''meeting'', ''call'', ''session'', ''standup'', ''sync'', ''available'', ''free''], Wb],
     re_i [Wb, words [''meeting'', ''call'', ''session'', ''standup'', ''sync''], Wb, Star Dot, Wb,
           words [''when'', ''what time'', ''schedule''], Wb],
     re_i [Wb, Lit ''schedule'', Wb],
     re_i [Wb, Lit ''what'', words [[CHR 0x27, CHR ''s''], '' is''], Lit '' '',
           words [''the'', ''a good''], Lit '' time'', Wb],
     re_i [Wb, Lit ''when '', words [''can'', ''should'', ''will'', ''do''], Lit '' '',
           words [''we'', ''you'', ''i'', ''they''], Wb],
     re_i [Wb, words [''availability'', ''availabilities'', ''available''], Star Space, Lit ''?'']]"

definition statusPatterns :: "regexp list" where
  "statusPatterns =
    [re_i [Wb, words [''status'', ''update'', ''progress'', ''eta'', ''timeline'', ''deadline''], Wb,
           Star Dot, Lit ''?''],
     re_i [Wb, Lit ''what'', words [[CHR 0x27, CHR ''s''], '' is''], Lit '' the '',
           words [''status'', ''update'', ''progress'', ''eta'', ''plan'', ''timeline''], Wb],
     re_i [Wb, words [''any'', ''got''], Lit '' '', words [''update'', ''news'', ''progress''], Wb],
     re_i [Wb, Lit ''how'', words [[CHR 0x27, CHR ''s''], '' is''], Lit '' '',
           words [''it'', ''that'', ''the'', ''this''], Lit '' '',
           words [''going'', ''coming'', ''progressing''], Wb],
     re_i [Wb, Lit ''where '', words [''are'', ''do''], Lit '' '', words [''we'', ''you'', ''they''],
           Lit '' stand'', Wb],
     re_i [Wb, Lit ''how far along'', Wb]]"

definition actionPatterns :: "regexp list" where
  "actionPatterns =
    [re_i [Wb, Lit ''can '', words [''you'', ''someone'', ''anyone'', ''anybody'', ''we''], Wb, Star Dot,
           Wb, words [''send'', ''do'', ''make'', ''create'', ''check'', ''look'', ''handle'', ''fix'',
                      ''update'', ''share'', ''forward'', ''upload'', ''post'', ''add'', ''remove'',
                      ''set up''], Wb],
     re_i [Wb, Lit ''could '', words [''you'', ''someone'', ''anyone''], Wb],
     re_i [Wb, Lit ''would '', words [''you'', ''someone''], Lit '' '',
           words [''mind'', ''be able to'', ''please''], Wb],
     re_i [Wb, Lit ''please'', Wb, Star Dot, Wb,
           words [''send'', ''do'', ''make'', ''create'', ''check'', ''look'', ''handle'', ''fix'',
                  ''update'', ''share''], Wb],
     re_i [Wb, Lit ''need '', words [''you'', ''someone'', ''help''], Lit '' to'', Wb],
     re_i [Wb, words [''who'', ''which one of you''], Lit '' '',
           words [''can'', ''will'', ''is going to''], Wb]]"

definition opinionPatterns :: "regexp list" where
  "opinionPatterns =
    [re_i [Wb, Lit ''what do '', words [''you'', ''you all'', ''y'all'', ''everyone'', ''we''],
           Lit '' think'', Wb],
     re_i [Wb, Lit ''thoughts'', Star Space, Lit ''?''],
     re_i [Wb, Lit ''wdyt'', Wb],
     re_i [Wb, Lit ''opinion'', Opt (Lit ''s''), Star Space, Lit ''?''],
     re_i [Wb, Lit ''feedback'', Star Space, Lit ''?''],
     re_i [Wb, Lit ''what'', words [[CHR 0x27, CHR ''s''], '' is''], Lit '' your '',
           words [''take'', ''view'', ''opinion'', ''thought''], Wb],
     re_i [Wb, words [''good'', ''bad'', ''better'', ''best'', ''right'', ''wrong''], Lit '' '',
           words [''idea'', ''approach'', ''way'', ''option'', ''choice''], Star Space, Lit ''?''],
     re_i [Wb, words [''should'', ''shall''], Lit '' '', words [''we'', ''i''], Wb],
     re_i [Wb, words [''prefer'', ''preference''], Wb, Star Dot, Lit ''?'']]"

definition infoPatterns :: "regexp list" where
  "infoPatterns =
    [re_i [Bol, words [''who'', ''what'', ''where'', ''when'', ''why'', ''how'', ''which'', ''whose'',
                       ''whom''], Wb],
     re_i [Wb, words [''who'', ''what'', ''where'', ''when'', ''why'', ''how'', ''which''], Wb, Star Dot,
           Lit ''?'', Eol]]"

definition implicitPatterns :: "regexp list" where
  "implicitPatterns =
    [re_i [Wb, Lit ''any'', Star Space, words [''one'', ''body''], Star Space,
           words [''know'', ''here'', ''available'', ''free''], Wb],
     re_i [Wb, Lit ''any idea'', Opt (Lit ''s''), Wb],
     re_i [Wb, Lit ''do you have'', Wb],
     re_i [Wb, Lit ''have you'', Wb],
     re_i [Wb, Lit ''is there'', Wb],
     re_i [Wb, Lit ''wondering '', words [''if'', ''about'', ''whether''], Wb],
     re_i [Wb, Lit ''curious '', words [''if'', ''about'', ''whether''], Wb]]"

text \<open>The rule groups in the order of the source; the first group with a match decides.\<close>

definition classifyQuestionType :: "string \<Rightarrow> questionType option" where
  "classifyQuestionType text =
     (let lower = trim (toLowerCase text) in
      if test yesNoStarters lower \<and> (str_includes lower ''?'' \<or> length lower < 80)
      then Some Yes_no
      else if any_test approvalPatterns lower then Some Approval
      else if any_test schedulePatterns lower then Some Scheduling
      else if any_test statusPatterns lower then Some Status_check
      else if any_test actionPatterns lower then Some Action_request
      else if any_test opinionPatterns lower then Some Opinion
      else if any_test infoPatterns lower then Some Info_seeking
      else if endsWith lower ''?'' then Some General
      else if any_test implicitPatterns lower then Some General
      else None)"

definition urgentWords :: regexp where
  "urgentWords =
     re_i [Wb, words [''urgent'', ''asap'', ''emergency'', ''critical'', ''immediately'', ''right now'',
                      ''time sensitive'', ''deadline today'', ''eod'', ''end of day'', ''blocker'',
                      ''blocking'', ''stuck''], Wb]"

definition highWords :: regexp where
  "highWords =
     re_i [Wb, alts [Lit ''important'', Lit ''priority'', Lit ''needed'', Lit ''required'', Lit ''must'',
                     Lit ''deadline'',
                     seqs [Lit ''by '', words [''today'', ''tomorrow'', ''monday'', ''tuesday'',
                                                ''wednesday'', ''thursday'', ''friday'']],
                     Lit ''client'', Lit ''customer'', Lit ''partner'', Lit ''escalat''], Wb]"

definition lowWords :: regexp where
  "lowWords =
     re_i [Wb, words [''just wondering'', ''just curious'', ''no rush'', ''whenever'', ''no hurry'',
                      ''low priority'', ''not urgent'', ''fyi'', ''btw''], Wb]"

definition isDirectedAtMe :: "analyzer \<Rightarrow> message \<Rightarrow> string \<Rightarrow> string \<Rightarrow> bool \<Rightarrow> bool" where
  "isDirectedAtMe a message myId myLid isGroupChat =
     (if \<not> isGroupChat then True else isMention a message myId myLid)"

definition classifyPriority ::
  "analyzer \<Rightarrow> string \<Rightarrow> questionType \<Rightarrow> message \<Rightarrow> string \<Rightarrow> string \<Rightarrow> bool \<Rightarrow> priority" where
  "classifyPriority a text questionType message myId myLid isGroupChat =
     (let lower = toLowerCase text;
          score = (0 :: rat);
          score = (if test urgentWords lower then score + 3 else score);
          score = (if test highWords lower then score + 2 else score);
          score = (if isDirectedAtMe a message myId myLid isGroupChat then score + 1 else score);
          score = (if questionType = Approval then score + 1 else score);
          score = (if questionType = Action_request then score + 1 / 2 else score);
          score = (if questionType = Status_check then score + 1 / 2 else score);
          score = (if test lowWords lower then score - 2 else score)
      in if score \<ge> 3 then Urgent
         else if score \<ge> 2 then High
         else if score \<le> - 1 then Low
         else Normal)"

definition stopWords :: "string list" where
  "stopWords =
    [''the'', ''a'', ''an'', ''is'', ''are'', ''was'', ''were'', ''be'', ''been'', ''being'',
     ''have'', ''has'', ''had'', ''do'', ''does'', ''did'', ''will'', ''would'', ''could'',
     ''should'', ''may'', ''might'', ''shall'', ''can'', ''need'', ''must'',
     ''i'', ''you'', ''he'', ''she'', ''it'', ''we'', ''they'', ''me'', ''him'', ''her'', ''us'', ''them'',
     ''my'', ''your'', ''his'', ''its'', ''our'', ''their'',
     ''this'', ''that'', ''these'', ''those'', ''what'', ''which'', ''who'', ''whom'',
     ''when'', ''where'', ''why'', ''how'',
     ''and'', ''but'', ''or'', ''nor'', ''not'', ''so'', ''yet'', ''both'', ''either'', ''neither'',
     ''in'', ''on'', ''at'', ''to'', ''for'', ''of'', ''with'', ''by'', ''from'', ''about'', ''into'',
     ''if'', ''then'', ''than'', ''too'', ''very'', ''just'', ''also'', ''any'', ''all'', ''no'', ''yes'',
     ''up'', ''out'', ''there'', ''here'', ''now'', ''get'', ''got'', ''still'', ''some'',
     ''please'', ''thanks'', ''thank'', ''know'', ''think'', ''anyone'', ''someone'', ''anybody'',
     ''everybody'', ''everyone'', ''something'', ''anything'', ''nothing'']"

text \<open>
  Keywords: lower case, every code unit that is neither a word character nor white space
  replaced by a blank, split at white space, words of at most two code units and stop
  words dropped, the first occurrence of each word kept, cut at fifteen.
\<close>

definition extractKeywords :: "string \<Rightarrow> string list" where
  "extractKeywords text =
     take 15 (rev (remdups (rev
       (filter (\<lambda>w. length w > 2 \<and> \<not> List.member stopWords w)
          (split_ws (map (\<lambda>c. if is_word c \<or> is_space c then c else CHR '' '')
                         (toLowerCase text)))))))"

definition analyzeQuestion ::
  "analyzer \<Rightarrow> message \<Rightarrow> string \<Rightarrow> string \<Rightarrow> bool \<Rightarrow> question_analysis option" where
  "analyzeQuestion a message myId myLid isGroupChat =
     (let body = trim (m_body message) in
      if body = [] \<or> length body < 3 then None
      else if isNonQuestion body then None
      else case classifyQuestionType body of
             None \<Rightarrow> None
           | Some questionType \<Rightarrow>
               Some \<lparr>qa_questionType = questionType,
                     qa_priority = classifyPriority a body questionType message myId myLid isGroupChat,
                     qa_keywords = extractKeywords body,
                     qa_directedAtMe = isDirectedAtMe a message myId myLid isGroupChat\<rparr>)"

subsection \<open>The main entry point\<close>

definition analyze :: "analyzer \<Rightarrow> message \<Rightarrow> string \<Rightarrow> string \<Rightarrow> bool \<Rightarrow> analysis" where
  "analyze a message myId myLid isGroupChat =
     (let result = \<lparr>r_isMention = False, r_isQuestion = False, r_isDirectedQuestion = False,
                     r_isDirectMessage = False, r_questionAnalysis = None\<rparr> in
      if m_fromMe message then result
      else
        let result = result\<lparr>r_isMention := isMention a message myId myLid\<rparr>;
            result = result\<lparr>r_isDirectMessage := (\<not> isGroupChat)\<rparr>
        in case analyzeQuestion a message myId myLid isGroupChat of
             None \<Rightarrow> result
           | Some qa \<Rightarrow> result\<lparr>r_isQuestion := True,
                                r_isDirectedQuestion := qa_directedAtMe qa,
                                r_questionAnalysis := Some qa\<rparr>)"

section \<open>Analyzer: answer scoring\<close>

text \<open>
  What \<open>scoreAnswer\<close> reads of a question, of the candidate message and of its options.
  \<open>sq_questionType\<close> is \<open>None\<close> when the question object has no \<open>questionType\<close>
  property, \<open>sq_keywords\<close> is \<open>None\<close> when it has no \<open>keywords\<close> (an empty array is
  truthy and is kept). Scores are doubles. \<open>timeDeltaMs\<close> and \<open>recentMsgCount\<close> are whole
  numbers, a difference of two timestamps in milliseconds and a count of messages, which
  a double holds exactly.
\<close>

record score_question =
  sq_body :: string
  sq_sender :: string
  sq_questionType :: "string option"
  sq_keywords :: "string list option"

record candidate_msg =
  cm_body :: string
  cm_sender :: string

record score_options =
  isQuotedReply :: bool
  quotedMsgBody :: string
  quotedMsgSender :: "string option"
  isFromMe :: bool
  timeDeltaMs :: int
  recentMsgCount :: int

definition default_options :: score_options where
  "default_options = \<lparr>isQuotedReply = False, quotedMsgBody = [], quotedMsgSender = None,
                        isFromMe = False, timeDeltaMs = 0, recentMsgCount = 0\<rparr>"

text \<open>A signal of the breakdown: its name, its score and its detail.\<close>

type_synonym signal = "string \<times> rat \<times> string"

definition strongPatterns :: "regexp list" where
  "strongPatterns =
    [re [Bol, words [''yes'', ''yeah'', ''yep'', ''yup'', ''ya'', ''yea'', ''sure'', ''correct'',
                     ''exactly'', ''absolutely'', ''definitely'', ''of course'', ''right''], Wb],
     re [Bol, words [''no'', ''nope'', ''nah'', ''not really'', ''unfortunately'', ''sadly'',
                     ''afraid not'', ''negative''], Wb],
     re [Bol, words [''done'', ''sorted'', ''fixed'', ''handled'', ''resolved'', ''completed'',
                     ''finished'', ''sent'', ''updated'', ''approved''], Wb],
     re [Wb, alts [seqs [Lit ''i'', words [[CHR 0x27, CHR ''l'', CHR ''l''],
                                          [CHR 0x27, CHR ''l'', CHR ''l''], '' will'', '' can'']],
                   seqs [Lit ''we'', words [[CHR 0x27, CHR ''l'', CHR ''l''],
                                           [CHR 0x27, CHR ''l'', CHR ''l''], '' will'', '' can'']],
                   Lit ''let me'',
                   seqs [Lit ''i'', words [[CHR 0x27, CHR ''m''], [CHR 0x27, CHR ''m''], '' am''],
                         Lit '' on it'']], Wb],
     re [Wb, words [''here you go'', ''here it is'', ''see attached'', ''check this'', ''take a look'',
                    ''see below''], Wb],
     re [Wb, alts [Lit ''the answer is'',
                   seqs [Lit ''it'', words [[CHR 0x27, CHR ''s''], [CHR 0x27, CHR ''s''], '' is'']],
                   seqs [Lit ''they'', words [[CHR 0x27, CHR ''r'', CHR ''e''],
                                             [CHR 0x27, CHR ''r'', CHR ''e''], '' are'']],
                   seqs [Lit ''that'', words [[CHR 0x27, CHR ''s''], [CHR 0x27, CHR ''s''], '' is'']]],
         Wb],
     re [Bol, Opt (Lit ''@''), Plus Word, Plus Space,
         words [''yes'', ''no'', ''it'', ''the'', ''that'', ''here'', ''done'', ''i''], Wb]]"

definition mediumPatterns :: "regexp list" where
  "mediumPatterns =
    [re [Wb, Lit ''http'', Opt (Lit ''s''), Lit ''://'', Plus NonSpace, Wb],
     re [Wb, Rep 1 2 Digit, OneOf '':.'', Rep 2 2 Digit, Wb],
     re_i [Wb, Plus Digit, Star Space,
           alts [Lit ''pm'', Lit ''am'', seqs [Lit ''hr'', Opt (Lit ''s'')],
                 seqs [Lit ''hour'', Opt (Lit ''s'')], seqs [Lit ''min'', Opt (Lit ''s'')],
                 seqs [Lit ''minute'', Opt (Lit ''s'')], seqs [Lit ''day'', Opt (Lit ''s'')],
                 seqs [Lit ''week'', Opt (Lit ''s'')]], Wb],
     re_i [Wb, words [''tomorrow'', ''today'', ''tonight'', ''monday'', ''tuesday'', ''wednesday'',
                      ''thursday'', ''friday'', ''saturday'', ''sunday''], Wb],
     re_i [Wb, words [''because'', ''since'', ''the reason'', ''due to''], Wb],
     re_i [Wb, words [''try'', ''use'', ''go to'', ''click'', ''open'', ''check'', ''look at''], Wb],
     re_i [Wb, words [''attached'', ''uploading'', ''sending'', ''forwarding''], Wb]]"

definition weakPatterns :: "regexp list" where
  "weakPatterns =
    [re_i [Wb, words [''ok'', ''okay'', ''sure thing'', ''will do'', ''got it'', ''noted'', ''thanks'',
                      ''thank you'', ''understood'', ''acknowledged''], Wb],
     re_i [Wb, words [''i think'', ''maybe'', ''probably'', ''possibly'', ''perhaps'', ''likely''], Wb]]"

definition antiPatterns :: "regexp list" where
  "antiPatterns =
    [re_i [Bol, alts [Lit ''lol'', Lit ''haha'', Never, Never, Never, Never]],
     re_i [Bol, words [''good morning'', ''good afternoon'', ''good evening'', ''hi'', ''hello'',
                       ''hey''], Wb],
     re [Bol, Plus (Lit ''?''), Eol],
     re_i [Bol, words [''same'', ''me too'', ''i agree''], Star Space, Eol]]"

definition getAnswerPatternScore :: "string \<Rightarrow> string option \<Rightarrow> rat" where
  "getAnswerPatternScore text questionType =
     (if any_test antiPatterns text then 0
      else
        let score = (0 :: rat);
            score = (if any_test strongPatterns text then max score (dbl (85 / 100)) else score);
            score = (if score < dbl (85 / 100)
                     then (if any_test mediumPatterns text then max score (1 / 2) else score)
                     else score);
            score = (if score < 1 / 2
                     then (if any_test weakPatterns text then max score (dbl (3 / 10)) else score)
                     else score);
            score = (if length text > 100 then max score (dbl (4 / 10))
                     else if length text > 50 then max score (1 / 4)
                     else score)
        in min score 1)"

definition getAnswerPatternDetail :: "string \<Rightarrow> string option \<Rightarrow> string" where
  "getAnswerPatternDetail text questionType =
     (if test (re_i [Bol, words [''yes'', ''yeah'', ''yep'', ''sure'', ''correct'', ''absolutely'',
                                 ''definitely''], Wb]) text
      then ''affirmative response''
      else if test (re_i [Bol, words [''no'', ''nope'', ''nah'', ''not really'', ''unfortunately''],
                          Wb]) text
      then ''negative response''
      else if test (re_i [Bol, words [''done'', ''sorted'', ''fixed'', ''handled'', ''resolved'',
                                      ''completed''], Wb]) text
      then ''task completion''
      else if test (re_i [Wb, Lit ''http'', Opt (Lit ''s''), Lit ''://'']) text
      then ''contains link''
      else if test (re_i [Wb, words [''attached'', ''uploading'', ''sending''], Wb]) text
      then ''sharing resource''
      else ''answer-like pattern'')"

text \<open>The \<open>switch\<close> on the question type; an unknown or missing type takes the default.\<close>

definition questionTypeAnswerMatch :: "string option \<Rightarrow> string \<Rightarrow> rat" where
  "questionTypeAnswerMatch questionType answerText =
     (let lower = toLowerCase answerText in
      if questionType = Some ''yes_no'' then
        (if test (re_i [Bol, words [''yes'', ''yeah'', ''yep'', ''yup'', ''sure'', ''correct'', ''no'',
                                    ''nope'', ''nah'', ''not really''], Wb]) lower then dbl (9 / 10)
         else if test (re_i [Wb, words [''yes'', ''no'', ''correct'', ''incorrect'', ''right'',
                                        ''wrong''], Wb]) lower then 1 / 2
         else 0)
      else if questionType = Some ''approval'' then
        (if test (re_i [Wb, words [''approved'', ''approve'', ''go ahead'', ''lgtm'', ''looks good'',
                                   ''green light'', ''sign off'', ''rejected'', ''denied''], Wb]) lower
         then dbl (95 / 100)
         else if test (re_i [Wb, words [''yes'', ''sure'', ''ok'', ''no'', ''hold off'', ''wait'',
                                        ''not yet''], Wb]) lower then dbl (6 / 10)
         else 0)
      else if questionType = Some ''scheduling'' then
        (if test (re [Wb, Rep 1 2 Digit, OneOf '':.'', Rep 2 2 Digit, Wb]) lower then dbl (8 / 10)
         else if test (re_i [Wb, words [''tomorrow'', ''today'', ''monday'', ''tuesday'', ''wednesday'',
                                        ''thursday'', ''friday'', ''pm'', ''am''], Wb]) lower
         then dbl (7 / 10)
         else if test (re_i [Wb, words [''works for me'', ''i'm free'', ''available'', ''busy'',
                                        ''can't make it''], Wb]) lower then dbl (6 / 10)
         else 0)
      else if questionType = Some ''status_check'' then
        (if test (re_i [Wb, words [''done'', ''complete'', ''in progress'', ''working on'', ''almost'',
                                   ''nearly'', ''started'', ''not started'', ''blocked''], Wb]) lower
         then dbl (8 / 10)
         else if test (re_i [Wb, words [''eta'', ''expected'', ''should be'', ''will be'', ''by''],
                             Wb]) lower then 1 / 2
         else 0)
      else if questionType = Some ''action_request'' then
        (if test (re_i [Wb, words [''done'', ''on it'', ''will do'', ''i'll'', ''i can'', ''sending'',
                                   ''sent'', ''shared'', ''handling''], Wb]) lower then dbl (8 / 10)
         else if test (re_i [Wb, words [''i can't'', ''unable'', ''not possible'', ''someone else''],
                             Wb]) lower then dbl (6 / 10)
         else 0)
      else if questionType = Some ''info_seeking'' then
        (if length lower > 30 then dbl (3 / 10) else 0)
      else if questionType = Some ''opinion'' then
        (if test (re_i [Wb, words [''i think'', ''in my opinion'', ''imo'', ''i'd say'', ''i prefer'',
                                   ''i suggest'', ''i recommend''], Wb]) lower then dbl (8 / 10)
         else if test (re_i [Wb, words [''agree'', ''disagree'', ''option'', ''better'', ''worse'',
                                        ''prefer''], Wb]) lower then 1 / 2
         else 0)
      else 0)"

text \<open>
  The question's keywords as a set, the answer's keywords counted against it.
\<close>

definition keywordOverlapScore :: "string list \<Rightarrow> string list \<Rightarrow> rat" where
  "keywordOverlapScore questionKeywords answerKeywords =
     (if questionKeywords = [] \<or> answerKeywords = [] then 0
      else
        let qSet = remdups questionKeywords;
            matches = length (filter (\<lambda>w. List.member qSet w) answerKeywords)
        in ddiv (of_nat matches) (of_nat (length qSet)))"

text \<open>The set of the three-unit substrings of a string.\<close>

definition getNgrams :: "string \<Rightarrow> string list" where
  "getNgrams str =
     (if length str < 3 then []
      else remdups (map (\<lambda>i. take 3 (drop i str)) [0 ..< length str - 2]))"

definition textSimilarity :: "string \<Rightarrow> string \<Rightarrow> rat" where
  "textSimilarity a0 b0 =
     (if a0 = [] \<or> b0 = [] then 0
      else if a0 = b0 then 1
      else
        let a = trim (collapse_ws (toLowerCase a0));
            b = trim (collapse_ws (toLowerCase b0))
        in if (length a < 20 \<or> length b < 20) \<and> (str_includes a b \<or> str_includes b a)
           then dbl (9 / 10)
           else
             let aGrams = getNgrams a; bGrams = getNgrams b in
             if aGrams = [] \<or> bGrams = [] then 0
             else
               let intersection = length (filter (\<lambda>gram. List.member bGrams gram) aGrams);
                   union = length aGrams + length bGrams - intersection
               in if union > 0 then ddiv (of_nat intersection) (of_nat union) else 0)"

subsection \<open>The ten signals\<close>

text \<open>
  Each signal takes the running total and returns the new running total together with
  the entry it leaves in the breakdown; a signal that does not fire returns the total
  as it is and no entry.
\<close>

definition signal_quoted_reply ::
  "score_question \<Rightarrow> string \<Rightarrow> score_options \<Rightarrow> rat \<Rightarrow> rat \<times> signal list" where
  "signal_quoted_reply question qBody opts totalScore =
     (if isQuotedReply opts \<and> quotedMsgBody opts \<noteq> [] then
        let quotedLower = trim (toLowerCase (quotedMsgBody opts));
            similarity = textSimilarity quotedLower qBody
        in if similarity > dbl (7 / 10)
           then (dadd totalScore 1,
                 [(''quoted_reply'', 1,
                   ''quoted reply (similarity: '' @ toFixed2 similarity @ '')'')])
           else if quotedMsgSender opts = Some (sq_sender question) \<and> similarity > dbl (3 / 10)
           then (dadd totalScore (dbl (8 / 10)),
                 [(''quoted_reply'', dbl (8 / 10), ''quoted same sender, partial match'')])
           else (totalScore, [])
      else (totalScore, []))"

definition signal_answer_pattern :: "score_question \<Rightarrow> string \<Rightarrow> rat \<Rightarrow> rat \<times> signal list" where
  "signal_answer_pattern question aBody totalScore =
     (let patternScore = getAnswerPatternScore aBody (sq_questionType question) in
      if patternScore > 0
      then (dadd totalScore (dmul patternScore (dbl (4 / 10))),
            [(''answer_pattern'', patternScore,
              getAnswerPatternDetail aBody (sq_questionType question))])
      else (totalScore, []))"

definition signal_keyword_overlap ::
  "score_question \<Rightarrow> string \<Rightarrow> string \<Rightarrow> rat \<Rightarrow> rat \<times> signal list" where
  "signal_keyword_overlap question qBody aBody totalScore =
     (let questionKeywords = (case sq_keywords question of
                                Some ks \<Rightarrow> ks | None \<Rightarrow> extractKeywords qBody);
          answerKeywords = extractKeywords aBody;
          overlap = keywordOverlapScore questionKeywords answerKeywords
      in if overlap > 0
         then (dadd totalScore (dmul overlap (1 / 4)),
               [(''keyword_overlap'', overlap,
                 show_int (math_round (dmul overlap 100)) @ ''% keyword overlap'')])
         else (totalScore, []))"

definition signal_addresses_asker :: "score_question \<Rightarrow> string \<Rightarrow> rat \<Rightarrow> rat \<times> signal list" where
  "signal_addresses_asker question aBody totalScore =
     (if sq_sender question \<noteq> [] then
        let askerParts = split_ws (toLowerCase (sq_sender question));
            addressed = list_ex (\<lambda>part. length part \<ge> 3 \<and> str_includes aBody part) askerParts
        in if addressed
           then (dadd totalScore (dbl (3 / 10)),
                 [(''addresses_asker'', dbl (3 / 10), ''mentions '' @ sq_sender question)])
           else (totalScore, [])
      else (totalScore, []))"

definition signal_time_proximity :: "score_options \<Rightarrow> rat \<Rightarrow> rat \<times> signal list" where
  "signal_time_proximity opts totalScore =
     (let minutesApart = ddiv (of_int \<bar>timeDeltaMs opts\<bar>) 60000 in
      if minutesApart \<le> 2
      then (dadd totalScore (dbl (2 / 10)),
            [(''time_proximity'', dbl (2 / 10), ''within 2 minutes'')])
      else if minutesApart \<le> 10
      then (dadd totalScore (dbl (15 / 100)),
            [(''time_proximity'', dbl (15 / 100), ''within 10 minutes'')])
      else if minutesApart \<le> 60
      then (dadd totalScore (dbl (8 / 100)),
            [(''time_proximity'', dbl (8 / 100), ''within 1 hour'')])
      else if minutesApart > 240
      then (dadd totalScore (- dbl (1 / 10)),
            [(''time_proximity'', - dbl (1 / 10), ''over 4 hours old'')])
      else (totalScore, []))"

definition signal_conversation_proximity :: "score_options \<Rightarrow> rat \<Rightarrow> rat \<times> signal list" where
  "signal_conversation_proximity opts totalScore =
     (if recentMsgCount opts \<le> 2
      then (dadd totalScore (dbl (15 / 100)),
            [(''conversation_proximity'', dbl (15 / 100),
              show_int (recentMsgCount opts) @ '' messages between'')])
      else if recentMsgCount opts \<le> 5
      then (dadd totalScore (dbl (8 / 100)),
            [(''conversation_proximity'', dbl (8 / 100),
              show_int (recentMsgCount opts) @ '' messages between'')])
      else (totalScore, []))"

definition signal_self_reply ::
  "score_question \<Rightarrow> candidate_msg \<Rightarrow> rat \<Rightarrow> rat \<times> signal list" where
  "signal_self_reply question candidateMsg totalScore =
     (if cm_sender candidateMsg = sq_sender question
      then (dmul totalScore (dbl (3 / 10)),
            [(''self_reply'', - (1 / 2), ''same person as asker'')])
      else (totalScore, []))"

definition signal_manager_reply ::
  "score_question \<Rightarrow> candidate_msg \<Rightarrow> score_options \<Rightarrow> rat \<Rightarrow> rat \<times> signal list" where
  "signal_manager_reply question candidateMsg opts totalScore =
     (if isFromMe opts \<and> cm_sender candidateMsg \<noteq> sq_sender question
      then (dadd totalScore (1 / 4),
            [(''manager_reply'', 1 / 4, ''your reply to someone else's question'')])
      else (totalScore, []))"

definition signal_substantive_reply :: "string \<Rightarrow> rat \<Rightarrow> rat \<times> signal list" where
  "signal_substantive_reply aBody totalScore =
     (if length aBody > 100
      then (dadd totalScore (dbl (15 / 100)),
            [(''substantive_reply'', dbl (15 / 100), ''detailed response'')])
      else if length aBody > 30
      then (dadd totalScore (dbl (5 / 100)),
            [(''substantive_reply'', dbl (5 / 100), ''moderate response'')])
      else (totalScore, []))"

definition signal_type_match :: "score_question \<Rightarrow> string \<Rightarrow> rat \<Rightarrow> rat \<times> signal list" where
  "signal_type_match question aBody totalScore =
     (let typeScore = questionTypeAnswerMatch (sq_questionType question) aBody in
      if typeScore > 0
      then (dadd totalScore (dmul typeScore (dbl (2 / 10))),
            [(''type_match'', typeScore,
              ''matches '' @ (case sq_questionType question of Some t \<Rightarrow> t | None \<Rightarrow> ''undefined'')
                @ '' answer pattern'')])
      else (totalScore, []))"

text \<open>
  The six signals that come before the self-reply penalty, from a total of zero, and the
  two that come after the manager boost, from the total reached there.
\<close>

definition signals_before_penalty ::
  "score_question \<Rightarrow> string \<Rightarrow> string \<Rightarrow> score_options \<Rightarrow> rat \<times> signal list" where
  "signals_before_penalty question qBody aBody opts =
     (let s1 = signal_quoted_reply question qBody opts 0;
          s2 = signal_answer_pattern question aBody (fst s1);
          s3 = signal_keyword_overlap question qBody aBody (fst s2);
          s4 = signal_addresses_asker question aBody (fst s3);
          s5 = signal_time_proximity opts (fst s4);
          s6 = signal_conversation_proximity opts (fst s5)
      in (fst s6, snd s1 @ snd s2 @ snd s3 @ snd s4 @ snd s5 @ snd s6))"

definition signals_after_penalty ::
  "score_question \<Rightarrow> string \<Rightarrow> rat \<Rightarrow> rat \<times> signal list" where
  "signals_after_penalty question aBody totalScore =
     (let s9 = signal_substantive_reply aBody totalScore;
          s10 = signal_type_match question aBody (fst s9)
      in (fst s10, snd s9 @ snd s10))"

text \<open>
  The running total of \<open>scoreAnswer\<close> before it is clamped and rounded, with the
  breakdown, in the order of the source: signals 1 to 6, the self-reply factor on the
  total reached so far, the manager boost, the length signal and the type match.
\<close>

definition totalScore :: "score_question \<Rightarrow> candidate_msg \<Rightarrow> score_options \<Rightarrow> rat \<times> signal list" where
  "totalScore question candidateMsg opts =
     (let qBody = trim (toLowerCase (sq_body question));
          aBody = trim (toLowerCase (cm_body candidateMsg));
          early = signals_before_penalty question qBody aBody opts;
          s7 = signal_self_reply question candidateMsg (fst early);
          s8 = signal_manager_reply question candidateMsg opts (fst s7);
          late = signals_after_penalty question aBody (fst s8)
      in (fst late, snd early @ snd s7 @ snd s8 @ snd late))"

text \<open>
  \<open>Math.round(confidence * 100) / 100\<close> of the total clamped to the unit interval.
\<close>

definition confidence_of :: "rat \<Rightarrow> rat" where
  "confidence_of t =
     (let confidence = max 0 (min 1 t)
      in ddiv (of_int (math_round (dmul confidence 100))) 100)"

definition scoreAnswer :: "score_question \<Rightarrow> candidate_msg \<Rightarrow> score_options \<Rightarrow> rat \<times> signal list" where
  "scoreAnswer question candidateMsg opts =
     (let aBody = trim (toLowerCase (cm_body candidateMsg)) in
      if aBody = [] then (0, [])
      else
        let (t, signals) = totalScore question candidateMsg opts
        in (confidence_of t, signals))"

section \<open>Store: the questions and answer_candidates tables\<close>

text \<open>
  The rows of the two tables the question lifecycle reads and writes, with the columns of
  the schema and its migrations. Text columns are strings, bigint columns are integers,
  numeric columns are the values of their numbers, a nullable column is an option. The
  three values the status check constraint admits are a datatype. The store is the two
  tables; the clock (\<open>Date.now()\<close>) and the generator of fresh ids are arguments of the
  operations.
\<close>

datatype q_status = QOpen | QAnswered | QDismissed

record question =
  q_id :: string
  q_chat_id :: string
  q_chat_name :: string
  q_sender :: string
  q_body :: string
  q_timestamp :: int
  q_msg_id :: "string option"
  q_directed_at_me :: bool
  q_status :: q_status
  q_priority :: string
  q_question_type :: string
  q_keywords :: "string list"
  q_category :: string
  q_has_media :: bool
  q_media_type :: string
  q_answered_by :: "string option"
  q_answered_at :: "int option"
  q_answer_confidence :: "rat option"
  q_answer_reason :: "string option"
  q_answer_preview :: "string option"
  q_answer_id :: "string option"
  q_dismissed :: bool
  q_dismissed_by :: "string option"
  q_dismissed_at :: "int option"
  q_manually_resolved :: bool
  q_classified_by :: string
  q_ai_confidence :: "rat option"
  q_ai_intent :: "string option"
  q_ai_summary :: "string option"
  q_ai_is_actionable :: "bool option"

record candidate =
  ac_id :: string
  ac_question_id :: string
  ac_chat_id :: string
  ac_msg_id :: "string option"
  ac_sender :: string
  ac_body :: string
  ac_timestamp :: int
  ac_confidence :: rat
  ac_signals :: "signal list"
  ac_is_quoted_reply :: bool
  ac_is_accepted :: bool

record store =
  questions :: "question list"
  answer_candidates :: "candidate list"

text \<open>\<open>from(table).update(f).eq(...)\<close>: every row that the filter selects is updated.\<close>

definition update_where :: "('r \<Rightarrow> bool) \<Rightarrow> ('r \<Rightarrow> 'r) \<Rightarrow> 'r list \<Rightarrow> 'r list" where
  "update_where sel f rows = map (\<lambda>r. if sel r then f r else r) rows"

text \<open>The result of a classification by the external service, as \<open>_callAPI\<close> normalises it.\<close>

record ai_result =
  ar_intent :: string
  ar_questionType :: "string option"
  ar_priority :: string
  ar_confidence :: rat
  ar_isActionable :: bool
  ar_summary :: string

subsection \<open>Answer detection\<close>

record check_params =
  cp_chatId :: string
  cp_sender :: string
  cp_body :: string
  cp_timestamp :: int
  cp_msgId :: "string option"
  cp_quotedMsgBody :: string
  cp_quotedMsgSender :: "string option"
  cp_isQuotedReply :: bool
  cp_isMyMessage :: bool
  cp_recentMsgCount :: int
  cp_analyzer :: "analyzer option"

text \<open>
  The entry with the highest positive score, the earliest one among equals: the first
  element of the stable descending sort of the positive entries.
\<close>

definition topSignal :: "signal list \<Rightarrow> signal option" where
  "topSignal signals =
     (case filter (\<lambda>(name, score, detail). score > 0) signals of
        [] \<Rightarrow> None
      | x # xs \<Rightarrow> Some (foldl (\<lambda>best y. if fst (snd y) > fst (snd best) then y else best) x xs))"

text \<open>
  The body of the loop over the open questions of the chat. The question row is passed to
  \<open>scoreAnswer\<close> as it comes from the table: its columns are \<open>question_type\<close> and
  \<open>keywords\<close>, so the scorer finds the keywords and no \<open>questionType\<close>.
\<close>

definition check_question ::
  "check_params \<Rightarrow> int \<Rightarrow> (nat \<Rightarrow> string) \<Rightarrow> store \<Rightarrow> question \<Rightarrow> store" where
  "check_question p now newId st q =
     (let age = now - q_timestamp q;
          maxAge = 24 * 60 * 60 * 1000 in
      if age < 2000 \<or> age > maxAge then st
      else
        let (confidence, signals) =
              (case cp_analyzer p of
                 Some a \<Rightarrow>
                   scoreAnswer
                     \<lparr>sq_body = q_body q, sq_sender = q_sender q, sq_questionType = None,
                      sq_keywords = Some (q_keywords q)\<rparr>
                     \<lparr>cm_body = cp_body p, cm_sender = cp_sender p\<rparr>
                     \<lparr>isQuotedReply = cp_isQuotedReply p,
                      quotedMsgBody = cp_quotedMsgBody p,
                      quotedMsgSender = cp_quotedMsgSender p,
                      isFromMe = cp_isMyMessage p,
                      timeDeltaMs = age,
                      recentMsgCount = cp_recentMsgCount p\<rparr>
               | None \<Rightarrow> (0, []))
        in if confidence \<ge> dbl (2 / 10) then
             let candidateId = newId (length (answer_candidates st));
                 isAccepted = (confidence \<ge> 1 / 2);
                 st = st\<lparr>answer_candidates := answer_candidates st @
                        [\<lparr>ac_id = candidateId,
                          ac_question_id = q_id q,
                          ac_chat_id = cp_chatId p,
                          ac_msg_id = cp_msgId p,
                          ac_sender = (if cp_sender p = [] then ''Unknown'' else cp_sender p),
                          ac_body = take 500 (cp_body p),
                          ac_timestamp = now,
                          ac_confidence = confidence,
                          ac_signals = signals,
                          ac_is_quoted_reply = cp_isQuotedReply p,
                          ac_is_accepted = isAccepted\<rparr>]\<rparr>
             in if isAccepted then
                  st\<lparr>questions := update_where (\<lambda>r. q_id r = q_id q)
                        (\<lambda>r. r\<lparr>q_status := QAnswered,
                                q_answered_by := Some (cp_sender p),
                                q_answered_at := Some now,
                                q_answer_confidence := Some confidence,
                                q_answer_reason :=
                                  Some (case topSignal signals of
                                          Some s \<Rightarrow> snd (snd s)
                                        | None \<Rightarrow> ''multi-signal match''),
                                q_answer_preview := Some (take 200 (cp_body p)),
                                q_answer_id := Some candidateId\<rparr>)
                        (questions st)\<rparr>
                else st
           else st)"

text \<open>
  \<open>date_now\<close> is what \<open>Date.now()\<close> returns, used when the message carries no timestamp.
  The open questions of the chat are read once, before the loop.
\<close>

definition checkForAnswers :: "check_params \<Rightarrow> int \<Rightarrow> (nat \<Rightarrow> string) \<Rightarrow> store \<Rightarrow> store" where
  "checkForAnswers p date_now newId st =
     (if cp_body p = [] then st
      else
        let now = (if cp_timestamp p = 0 then date_now else cp_timestamp p);
            pendingQs = filter (\<lambda>q. q_chat_id q = cp_chatId p \<and> q_status q = QOpen)
                               (questions st)
        in if pendingQs = [] then st
           else foldl (check_question p now newId) st pendingQs)"

subsection \<open>Manual question management\<close>

definition markQuestionAnswered :: "string \<Rightarrow> string \<Rightarrow> int \<Rightarrow> store \<Rightarrow> store" where
  "markQuestionAnswered questionId answeredBy date_now st =
     st\<lparr>questions := update_where (\<lambda>r. q_id r = questionId)
           (\<lambda>r. r\<lparr>q_status := QAnswered,
                   q_answered_by := Some (if answeredBy = [] then ''Manual'' else answeredBy),
                   q_answered_at := Some date_now,
                   q_answer_confidence := Some 1,
                   q_answer_reason := Some ''manually resolved'',
                   q_manually_resolved := True\<rparr>)
           (questions st)\<rparr>"

definition dismissQuestion :: "string \<Rightarrow> string \<Rightarrow> int \<Rightarrow> store \<Rightarrow> store" where
  "dismissQuestion questionId dismissedBy date_now st =
     st\<lparr>questions := update_where (\<lambda>r. q_id r = questionId)
           (\<lambda>r. r\<lparr>q_status := QDismissed,
                   q_dismissed := True,
                   q_dismissed_by := Some (if dismissedBy = [] then ''Admin'' else dismissedBy),
                   q_dismissed_at := Some date_now\<rparr>)
           (questions st)\<rparr>"

definition reopenQuestion :: "string \<Rightarrow> store \<Rightarrow> store" where
  "reopenQuestion questionId st =
     st\<lparr>questions := update_where (\<lambda>r. q_id r = questionId)
           (\<lambda>r. r\<lparr>q_status := QOpen,
                   q_answered_by := None,
                   q_answered_at := None,
                   q_answer_confidence := None,
                   q_answer_reason := None,
                   q_answer_preview := None,
                   q_answer_id := None,
                   q_dismissed := False,
                   q_dismissed_by := None,
                   q_dismissed_at := None,
                   q_manually_resolved := False\<rparr>)
           (questions st)\<rparr>"

text \<open>
  \<open>.single()\<close> yields a row only when exactly one row has the id; otherwise the operation
  returns without a change.
\<close>

definition acceptAnswerCandidate :: "string \<Rightarrow> store \<Rightarrow> store" where
  "acceptAnswerCandidate candidateId st =
     (case filter (\<lambda>c. ac_id c = candidateId) (answer_candidates st) of
        [candidate] \<Rightarrow>
          let st = st\<lparr>answer_candidates :=
                        update_where (\<lambda>c. ac_id c = candidateId)
                          (\<lambda>c. c\<lparr>ac_is_accepted := True\<rparr>) (answer_candidates st)\<rparr>;
              st = st\<lparr>answer_candidates :=
                        update_where (\<lambda>c. ac_id c \<noteq> candidateId
                                           \<and> ac_question_id c = ac_question_id candidate)
                          (\<lambda>c. c\<lparr>ac_is_accepted := False\<rparr>) (answer_candidates st)\<rparr>
          in st\<lparr>questions := update_where (\<lambda>r. q_id r = ac_question_id candidate)
                  (\<lambda>r. r\<lparr>q_status := QAnswered,
                          q_answered_by := Some (ac_sender candidate),
                          q_answered_at := Some (ac_timestamp candidate),
                          q_answer_confidence := Some (ac_confidence candidate),
                          q_answer_reason := Some ''manually accepted'',
                          q_answer_preview := Some (take 200 (ac_body candidate)),
                          q_answer_id := Some candidateId,
                          q_manually_resolved := True\<rparr>)
                  (questions st)\<rparr>
      | _ \<Rightarrow> st)"

subsection \<open>Applying a result of the external classifier\<close>

definition ai_update :: "ai_result \<Rightarrow> int \<Rightarrow> question \<Rightarrow> question" where
  "ai_update aiResult date_now r =
     (let r = r\<lparr>q_classified_by := ''ai'',
                q_ai_confidence := Some (ar_confidence aiResult),
                q_ai_intent := Some (if ar_intent aiResult = [] then ''other''
                                     else ar_intent aiResult),
                q_ai_summary := Some (ar_summary aiResult),
                q_ai_is_actionable := Some (ar_isActionable aiResult)\<rparr>;
          r = (case ar_questionType aiResult of
                 Some t \<Rightarrow>
                   if ar_intent aiResult = ''question'' \<and> t \<noteq> []
                   then r\<lparr>q_question_type := t,
                          q_priority := (if ar_priority aiResult = [] then ''normal''
                                         else ar_priority aiResult)\<rparr>
                   else r
               | None \<Rightarrow> r)
      in if ar_intent aiResult \<noteq> ''question'' \<and> ar_confidence aiResult \<ge> 8 / 10
         then r\<lparr>q_status := QDismissed,
                q_dismissed := True,
                q_dismissed_by := Some ''AI (not a question)'',
                q_dismissed_at := Some date_now\<rparr>
         else r)"

definition updateQuestionAIClassification ::
  "string \<Rightarrow> ai_result option \<Rightarrow> int \<Rightarrow> store \<Rightarrow> store" where
  "updateQuestionAIClassification questionId aiResult date_now st =
     (case aiResult of
        None \<Rightarrow> st
      | Some res \<Rightarrow>
          st\<lparr>questions := update_where (\<lambda>r. q_id r = questionId) (ai_update res date_now)
                (questions st)\<rparr>)"

section \<open>AIClassifier: the classification queue\<close>

text \<open>
  A queued job. The completion callback is what the queue sees of it: called with the job
  id and a result, it either completes (\<open>True\<close>) or throws (\<open>False\<close>).
\<close>

record job =
  j_id :: string
  j_body :: string
  j_sender :: string
  j_chatName :: string
  j_isGroupChat :: bool
  j_regexResult :: "question_analysis option"
  j_onClassified :: "(string \<Rightarrow> ai_result \<Rightarrow> bool) option"

subsection \<open>The external service\<close>

text \<open>
  What one HTTPS request to the service ends with. The request either fails (network
  error, 30 s timeout: the promise rejects) or resolves with a status code and a body.
  Of the body the code reads: whether it parses as JSON at all; whether the JSON carries
  an \<open>error\<close>, and then the number of seconds of a \<open>try again in N s\<close> in its message, if
  there is one; otherwise the text of its first content block, which (after the
  markdown fence is stripped) either fails to parse, or parses to something that is not
  an array, or to an array. An element of the array is an object with the fields the
  prompt asks for, each possibly missing, or not an object. A body without content text
  counts as the empty array, as \<open>|| '[]'\<close> makes it.
\<close>

record raw_result =
  rr_intent :: "string option"
  rr_question_type :: "string option"
  rr_priority :: "string option"
  rr_confidence :: "rat option"
  rr_is_actionable :: bool
  rr_summary :: "string option"

datatype json_elem = NonObject | Obj raw_result

datatype parsed = NotArray | Arr "json_elem list"

datatype body = Unparseable | ErrorBody "rat option" | Content "parsed option"

datatype response = Failed | Http int body

record attempt =
  latency :: int
  response :: response

datatype api_error = RequestFailed | HttpError int | ParseError | ApiError

subsection \<open>The classifier object and the world it runs in\<close>

text \<open>
  The fields of the object, and after them the part of the world that the temporal claims
  are about: the clock that \<open>Date.now()\<close> reads, the start times of the requests sent so
  far, the callback invocations so far, the batch that a running \<open>_processBatch\<close> holds
  while it awaits \<open>_callAPI\<close>, and the deadlines of the timers set for a next batch. A
  timer is its deadline on the clock. Waiting advances the clock by the delay asked for.
\<close>

record classifier =
  apiKey :: string
  enabled :: bool
  queue :: "job list"
  processing :: bool
  batchSize :: nat
  batchDelayMs :: int
  batchTimer :: "int option"
  stat_classified :: nat
  stat_errors :: nat
  stat_apiCalls :: nat
  rateLimitDelayMs :: int
  lastRequestTime :: int
  maxRetries :: nat
  retryBaseDelayMs :: int
  clock :: int
  requests :: "int list"
  callbacks :: "(string \<times> ai_result) list"
  inflight :: "job list option"
  nextBatchAt :: "int list"

definition new_AIClassifier :: "string \<Rightarrow> int \<Rightarrow> classifier" where
  "new_AIClassifier key t0 =
     \<lparr>apiKey = key, enabled = (key \<noteq> []), queue = [], processing = False, batchSize = 10,
      batchDelayMs = 3000, batchTimer = None, stat_classified = 0, stat_errors = 0,
      stat_apiCalls = 0, rateLimitDelayMs = 13000, lastRequestTime = 0, maxRetries = 3,
      retryBaseDelayMs = 15000, clock = t0, requests = [], callbacks = [], inflight = None,
      nextBatchAt = []\<rparr>"

definition sleep :: "int \<Rightarrow> classifier \<Rightarrow> classifier" where
  "sleep ms s = s\<lparr>clock := clock s + ms\<rparr>"

definition waitForRateLimit :: "classifier \<Rightarrow> classifier" where
  "waitForRateLimit s =
     (let elapsed = clock s - lastRequestTime s;
          waitMs = rateLimitDelayMs s - elapsed
      in if waitMs > 0 then sleep waitMs s else s)"

subsection \<open>One call of the service, with its retries\<close>

definition parseRetryAfter :: "body \<Rightarrow> int option" where
  "parseRetryAfter b =
     (case b of ErrorBody (Some seconds) \<Rightarrow> Some (\<lceil>seconds * 1000\<rceil> + 1000) | _ \<Rightarrow> None)"

definition normalize :: "json_elem \<Rightarrow> ai_result option" where
  "normalize e =
     (case e of
        NonObject \<Rightarrow> None
      | Obj r \<Rightarrow>
          Some \<lparr>ar_intent = (case rr_intent r of Some i \<Rightarrow> if i = [] then ''other'' else i
                              | None \<Rightarrow> ''other''),
                ar_questionType = (case rr_question_type r of
                                     Some t \<Rightarrow> if t = [] then None else Some t | None \<Rightarrow> None),
                ar_priority = (case rr_priority r of Some p \<Rightarrow> if p = [] then ''normal'' else p
                                | None \<Rightarrow> ''normal''),
                ar_confidence = min 1 (max 0 (case rr_confidence r of
                                                Some c \<Rightarrow> if c = 0 then 1 / 2 else c
                                              | None \<Rightarrow> 1 / 2)),
                ar_isActionable = rr_is_actionable r,
                ar_summary = (case rr_summary r of Some t \<Rightarrow> t | None \<Rightarrow> [])\<rparr>)"

text \<open>
  The body of the \<open>try\<close> block after the request has come back, for \<open>n\<close> messages at the
  given attempt. \<open>Inl\<close> is an exception thrown inside the block. \<open>Inr (Some results, s)\<close>
  is a \<open>return\<close>, \<open>Inr (None, s)\<close> a \<open>continue\<close>.
\<close>

definition handle_response ::
  "nat \<Rightarrow> nat \<Rightarrow> response \<Rightarrow> classifier
   \<Rightarrow> api_error + (ai_result option list) option \<times> classifier" where
  "handle_response n attempt resp s =
     (case resp of
        Failed \<Rightarrow> Inl RequestFailed
      | Http statusCode b \<Rightarrow>
          if statusCode = 429 then
            let backoffMs = (case parseRetryAfter b of
                               Some retryAfter \<Rightarrow> retryAfter
                             | None \<Rightarrow> retryBaseDelayMs s * 2 ^ attempt)
            in if attempt < maxRetries s
               then let s = sleep backoffMs s in Inr (None, s\<lparr>lastRequestTime := clock s\<rparr>)
               else Inr (Some (replicate n None), s\<lparr>stat_errors := stat_errors s + 1\<rparr>)
          else if statusCode = 529 then
            let backoffMs = retryBaseDelayMs s * 2 ^ attempt
            in if attempt < maxRetries s
               then Inr (None, sleep backoffMs s)
               else Inr (Some (replicate n None), s\<lparr>stat_errors := stat_errors s + 1\<rparr>)
          else if statusCode < 200 \<or> statusCode \<ge> 300 then Inl (HttpError statusCode)
          else (case b of
                  Unparseable \<Rightarrow> Inl ParseError
                | ErrorBody hint \<Rightarrow> Inl ApiError
                | Content None \<Rightarrow> Inl ParseError
                | Content (Some NotArray) \<Rightarrow> Inr (Some (replicate n None), s)
                | Content (Some (Arr elems)) \<Rightarrow> Inr (Some (map normalize elems), s)))"

lemma handle_response_maxRetries:
  "handle_response n attempt resp s = Inr (r, s') \<Longrightarrow> maxRetries s' = maxRetries s"
  by (auto simp: handle_response_def sleep_def Let_def
           split: response.splits body.splits option.splits parsed.splits if_splits)

text \<open>
  Sending one request: \<open>lastRequestTime\<close> is stamped, the request starts, and the clock
  has moved by the request's latency when its promise settles.
\<close>

definition send_request :: "attempt \<Rightarrow> classifier \<Rightarrow> classifier" where
  "send_request a s =
     (let s = s\<lparr>lastRequestTime := clock s, requests := requests s @ [clock s]\<rparr>
      in s\<lparr>clock := clock s + latency a\<rparr>)"

text \<open>
  The retry loop. \<open>http i\<close> is what the \<open>i\<close>-th request ever sent ends with. An
  exception from the block is caught by the round's own handler, which backs off and
  retries or gives up.
\<close>

function callAPI_loop ::
  "(nat \<Rightarrow> attempt) \<Rightarrow> nat \<Rightarrow> nat \<Rightarrow> classifier \<Rightarrow> ai_result option list \<times> classifier" where
  "callAPI_loop http n attempt s =
     (if attempt > maxRetries s then (replicate n None, s)
      else
        let a = http (length (requests s));
            s2 = send_request a s
        in case handle_response n attempt (response a) s2 of
             Inr (Some results, s3) \<Rightarrow> (results, s3)
           | Inr (None, s3) \<Rightarrow> callAPI_loop http n (Suc attempt) s3
           | Inl err \<Rightarrow>
               if attempt < maxRetries s2
               then callAPI_loop http n (Suc attempt)
                      (sleep (retryBaseDelayMs s2 * 2 ^ attempt) s2)
               else (replicate n None, s2\<lparr>stat_errors := stat_errors s2 + 1\<rparr>))"
  by pat_completeness auto
termination
  by (relation "measure (\<lambda>(http, n, attempt, s). Suc (maxRetries s) - attempt)")
     (auto simp: sleep_def send_request_def Let_def dest!: handle_response_maxRetries)

declare callAPI_loop.simps [simp del]

text \<open>
  \<open>_callAPI\<close>. The request text is built from the messages, but what comes back is the
  service's answer, so of the messages only their number matters here.
\<close>

definition callAPI ::
  "(nat \<Rightarrow> attempt) \<Rightarrow> job list \<Rightarrow> classifier \<Rightarrow> ai_result option list \<times> classifier" where
  "callAPI http messages s =
     (if apiKey s = [] \<or> messages = [] then ([], s)
      else
        let s = waitForRateLimit s;
            s = s\<lparr>stat_apiCalls := stat_apiCalls s + 1\<rparr>
        in callAPI_loop http (length messages) 0 s)"

subsection \<open>Processing a batch\<close>

text \<open>
  The callback loop: \<open>results[i]\<close> is \<open>undefined\<close> past the end of the results. A job is
  called back only when its result is an object and it has a callback; a callback that
  throws is caught and not counted.
\<close>

fun deliver :: "job list \<Rightarrow> ai_result option list \<Rightarrow> classifier \<Rightarrow> classifier" where
  "deliver [] results s = s"
| "deliver (item # batch) results s =
     (let result = (case results of [] \<Rightarrow> None | r # _ \<Rightarrow> r);
          s = (case result of
                 None \<Rightarrow> s
               | Some res \<Rightarrow>
                   (case j_onClassified item of
                      None \<Rightarrow> s
                    | Some onClassified \<Rightarrow>
                        let s = s\<lparr>callbacks := callbacks s @ [(j_id item, res)]\<rparr>
                        in if onClassified (j_id item) res
                           then s\<lparr>stat_classified := stat_classified s + 1\<rparr>
                           else s))
      in deliver batch (tl results) s)"

text \<open>
  \<open>_processBatch\<close> runs synchronously up to its first \<open>await\<close>: the guard, the flag, the
  splice. The rest runs when \<open>_callAPI\<close> has returned. Every exception inside \<open>_callAPI\<close>
  is caught by the retry loop, so the outer handler of \<open>_processBatch\<close> has nothing to
  catch.
\<close>

definition processBatch_begin :: "classifier \<Rightarrow> classifier" where
  "processBatch_begin s =
     (if processing s \<or> queue s = [] then s
      else s\<lparr>processing := True,
             inflight := Some (take (batchSize s) (queue s)),
             queue := drop (batchSize s) (queue s)\<rparr>)"

definition processBatch_finish :: "(nat \<Rightarrow> attempt) \<Rightarrow> classifier \<Rightarrow> classifier" where
  "processBatch_finish http s =
     (case inflight s of
        None \<Rightarrow> s
      | Some batch \<Rightarrow>
          let (results, s) = callAPI http batch s;
              s = deliver batch results s;
              s = s\<lparr>processing := False, inflight := None\<rparr>
          in if queue s \<noteq> [] then
               let elapsed = clock s - lastRequestTime s;
                   waitMs = max 200 (rateLimitDelayMs s - elapsed)
               in s\<lparr>nextBatchAt := nextBatchAt s @ [clock s + waitMs]\<rparr>
             else s)"

definition processBatch :: "(nat \<Rightarrow> attempt) \<Rightarrow> classifier \<Rightarrow> classifier" where
  "processBatch http s =
     (if processing s \<or> queue s = [] then s
      else processBatch_finish http (processBatch_begin s))"

subsection \<open>Enqueueing\<close>

definition queueMessage :: "job \<Rightarrow> classifier \<Rightarrow> classifier" where
  "queueMessage j s =
     (if \<not> enabled s then s
      else if j_body j = [] \<or> length (trim (j_body j)) < 3 then s
      else
        let s = s\<lparr>queue := queue s @ [j]\<rparr>;
            s = (if batchTimer s = None
                 then s\<lparr>batchTimer := Some (clock s + batchDelayMs s)\<rparr> else s)
        in if length (queue s) \<ge> batchSize s
           then processBatch_begin (s\<lparr>batchTimer := None\<rparr>)
           else s)"

text \<open>
  What happens to the queue from outside: a message is enqueued, or time passes. When
  time passes, a batch timer whose deadline is reached runs its callback (clear the
  timer, start \<open>_processBatch\<close>), and so does every next-batch timer that is due.
\<close>

datatype event = Enqueue job | Elapse int

definition fire_due :: "classifier \<Rightarrow> classifier" where
  "fire_due s =
     (let s = (case batchTimer s of
                 Some t \<Rightarrow> if t \<le> clock s then processBatch_begin (s\<lparr>batchTimer := None\<rparr>) else s
               | None \<Rightarrow> s);
          due = filter (\<lambda>t. t \<le> clock s) (nextBatchAt s);
          s = s\<lparr>nextBatchAt := filter (\<lambda>t. \<not> t \<le> clock s) (nextBatchAt s)\<rparr>
      in foldl (\<lambda>s t. processBatch_begin s) s due)"

fun step :: "classifier \<Rightarrow> event \<Rightarrow> classifier" where
  "step s (Enqueue j) = queueMessage j s"
| "step s (Elapse ms) = fire_due (s\<lparr>clock := clock s + ms\<rparr>)"

definition run :: "event list \<Rightarrow> classifier \<Rightarrow> classifier" where
  "run es s = foldl step s es"

fun enqueued :: "event list \<Rightarrow> job list" where
  "enqueued [] = []"
| "enqueued (Enqueue j # es) = j # enqueued es"
| "enqueued (Elapse ms # es) = enqueued es"

fun elapsed_ms :: "event list \<Rightarrow> int" where
  "elapsed_ms [] = 0"
| "elapsed_ms (Enqueue j # es) = elapsed_ms es"
| "elapsed_ms (Elapse ms # es) = ms + elapsed_ms es"

section \<open>Concrete data for the closed theorems\<close>

definition example_question :: question where
  "example_question =
     \<lparr>q_id = ''q_1'', q_chat_id = ''120363@g.us'', q_chat_name = ''Partners'',
      q_sender = ''Bob Stone'', q_body = ''Is the report done?'', q_timestamp = 1000000,
      q_msg_id = Some ''m_1'', q_directed_at_me = False, q_status = QOpen,
      q_priority = ''normal'', q_question_type = ''yes_no'', q_keywords = [''report'', ''done''],
      q_category = ''general'', q_has_media = False, q_media_type = ''chat'',
      q_answered_by = None, q_answered_at = None, q_answer_confidence = None,
      q_answer_reason = None, q_answer_preview = None, q_answer_id = None,
      q_dismissed = False, q_dismissed_by = None, q_dismissed_at = None,
      q_manually_resolved = False, q_classified_by = ''regex'', q_ai_confidence = None,
      q_ai_intent = None, q_ai_summary = None, q_ai_is_actionable = None\<rparr>"

definition example_candidate :: candidate where
  "example_candidate =
     \<lparr>ac_id = ''ac_1'', ac_question_id = ''q_1'', ac_chat_id = ''120363@g.us'',
      ac_msg_id = Some ''m_2'', ac_sender = ''Alice'', ac_body = ''I think so'',
      ac_timestamp = 1060000, ac_confidence = 3 / 10, ac_signals = [],
      ac_is_quoted_reply = False, ac_is_accepted = False\<rparr>"

text \<open>The store after an operator has accepted the candidate: the question is answered.\<close>

definition accepted_store :: store where
  "accepted_store =
     acceptAnswerCandidate ''ac_1''
       \<lparr>questions = [example_question], answer_candidates = [example_candidate]\<rparr>"

definition not_a_question :: ai_result where
  "not_a_question =
     \<lparr>ar_intent = ''fyi'', ar_questionType = None, ar_priority = ''low'',
      ar_confidence = 9 / 10, ar_isActionable = False, ar_summary = ''report status note''\<rparr>"

definition own_message :: message where
  "own_message =
     \<lparr>m_body = ''Austin, can you send the invoice?'', m_fromMe = True,
      m_mentionedIds = [''15550001@c.us''], m_hasQuotedMsg = False, m_quotedMsgBody = []\<rparr>"

definition invoice_text :: string where
  "invoice_text = ''Can you send me the invoice ASAP?''"

definition yes_no_question :: score_question where
  "yes_no_question =
     \<lparr>sq_body = ''Is the report done?'', sq_sender = ''Bob'', sq_questionType = Some ''yes_no'',
      sq_keywords = Some [''report'', ''done'']\<rparr>"

text \<open>Jobs with a callback that completes, and a classifier that holds two of them.\<close>

definition job_with_id :: "string \<Rightarrow> job" where
  "job_with_id i =
     \<lparr>j_id = i, j_body = ''Is the report done?'', j_sender = ''Bob Stone'',
      j_chatName = ''Partners'', j_isGroupChat = True, j_regexResult = None,
      j_onClassified = Some (\<lambda>i r. True)\<rparr>"

definition two_queued :: classifier where
  "two_queued = (new_AIClassifier ''key'' 0)\<lparr>queue := [job_with_id ''q_1'', job_with_id ''q_2'']\<rparr>"

text \<open>
  Three services: one that throttles every request; one that answers the first request
  with an array of a single element; one that throttles the first request, suggesting to
  try again in one second, and then answers with an empty array. Each request takes 100
  ms.
\<close>

definition always_throttled :: "nat \<Rightarrow> attempt" where
  "always_throttled i = \<lparr>latency = 100, response = Http 429 (ErrorBody None)\<rparr>"

definition one_element :: raw_result where
  "one_element =
     \<lparr>rr_intent = Some ''question'', rr_question_type = Some ''yes_no'',
      rr_priority = Some ''normal'', rr_confidence = Some (9 / 10), rr_is_actionable = True,
      rr_summary = Some ''report status''\<rparr>"

definition short_array :: "nat \<Rightarrow> attempt" where
  "short_array i = \<lparr>latency = 100, response = Http 200 (Content (Some (Arr [Obj one_element])))\<rparr>"

definition retry_in_one_second :: "nat \<Rightarrow> attempt" where
  "retry_in_one_second i =
     (if i = 0 then \<lparr>latency = 100, response = Http 429 (ErrorBody (Some 1))\<rparr>
      else \<lparr>latency = 100, response = Http 200 (Content (Some (Arr [])))\<rparr>)"

text \<open>
  A service that is overloaded at the first request and then answers with an array of a
  single element.
\<close>

definition overloaded_then_short_array :: "nat \<Rightarrow> attempt" where
  "overloaded_then_short_array i =
     (if i = 0 then \<lparr>latency = 100, response = Http 529 (ErrorBody None)\<rparr>
      else \<lparr>latency = 100, response = Http 200 (Content (Some (Arr [Obj one_element])))\<rparr>)"

text \<open>
  A service that throttles the first request, suggesting to try again in twenty seconds,
  and then answers with an empty array.
\<close>

definition retry_in_twenty_seconds :: "nat \<Rightarrow> attempt" where
  "retry_in_twenty_seconds i =
     (if i = 0 then \<lparr>latency = 100, response = Http 429 (ErrorBody (Some 20))\<rparr>
      else \<lparr>latency = 100, response = Http 200 (Content (Some (Arr [])))\<rparr>)"

text \<open>
  Nine messages arriving within two seconds at a new classifier, and a tenth job.
\<close>

definition nine_arrivals :: "event list" where
  "nine_arrivals =
     [Enqueue (job_with_id ''q_1''), Elapse 500, Enqueue (job_with_id ''q_2''),
      Enqueue (job_with_id ''q_3''), Elapse 700, Enqueue (job_with_id ''q_4''),
      Enqueue (job_with_id ''q_5''), Enqueue (job_with_id ''q_6''), Elapse 800,
      Enqueue (job_with_id ''q_7''), Enqueue (job_with_id ''q_8''),
      Enqueue (job_with_id ''q_9'')]"

text \<open>
  A question that is answered automatically, reopened, and answered automatically again:
  two messages from two people, sixty seconds and two minutes after the question.
\<close>

definition candidate_ids :: "nat \<Rightarrow> string" where
  "candidate_ids n = ''ac_'' @ show_nat n"

definition first_answer :: check_params where
  "first_answer =
     \<lparr>cp_chatId = ''120363@g.us'', cp_sender = ''Alice'', cp_body = ''yes'',
      cp_timestamp = 1060000, cp_msgId = Some ''m_2'', cp_quotedMsgBody = [],
      cp_quotedMsgSender = None, cp_isQuotedReply = False, cp_isMyMessage = False,
      cp_recentMsgCount = 1, cp_analyzer = Some (setTrackName ''Austin'')\<rparr>"

definition second_answer :: check_params where
  "second_answer =
     first_answer\<lparr>cp_sender := ''Carol'', cp_body := ''yes it is'', cp_timestamp := 1120000,
                  cp_msgId := Some ''m_3''\<rparr>"

definition answered_once :: store where
  "answered_once =
     checkForAnswers first_answer 0 candidate_ids
       \<lparr>questions = [example_question], answer_candidates = []\<rparr>"

definition answered_twice :: store where
  "answered_twice =
     checkForAnswers second_answer 0 candidate_ids (reopenQuestion ''q_1'' answered_once)"

section \<open>Notions the properties are stated with\<close>

text \<open>
  What accepting the candidate with id \<open>cid\<close> of question \<open>qid\<close> does to one row of the
  candidates table.
\<close>

definition accept_row :: "string \<Rightarrow> string \<Rightarrow> candidate \<Rightarrow> candidate" where
  "accept_row cid qid x =
     (if ac_id x = cid then x\<lparr>ac_is_accepted := True\<rparr>
      else if ac_question_id x = qid then x\<lparr>ac_is_accepted := False\<rparr> else x)"

text \<open>
  The callback invocations that a batch makes for a list of results: position by
  position, for as long as both lists last, a job with a callback is called with its
  result when the result is an object.
\<close>

definition deliveries :: "job list \<Rightarrow> ai_result option list \<Rightarrow> (string \<times> ai_result) list" where
  "deliveries batch results =
     concat (map (\<lambda>(item, result).
                    case result of
                      None \<Rightarrow> []
                    | Some res \<Rightarrow> (case j_onClassified item of
                                     None \<Rightarrow> [] | Some onClassified \<Rightarrow> [(j_id item, res)]))
                 (zip batch results))"

text \<open>
  A response of the degradation path: a failed request, a status outside 200 to 299
  (throttled, overloaded or any other), or a success whose body is malformed or whose
  content is not an array.
\<close>

fun degrades :: "response \<Rightarrow> bool" where
  "degrades Failed = True"
| "degrades (Http statusCode b) =
     (if statusCode < 200 \<or> statusCode \<ge> 300 then True
      else case b of
             Content (Some (Arr elems)) \<Rightarrow> False
           | _ \<Rightarrow> True)"

text \<open>
  A response after which a call tries again while it has attempts left: a failed
  request, a status outside 200 to 299 (throttled, overloaded or any other), or a success
  whose body is malformed or carries no parseable content.
\<close>

fun retried :: "response \<Rightarrow> bool" where
  "retried Failed = True"
| "retried (Http statusCode b) =
     (if statusCode < 200 \<or> statusCode \<ge> 300 then True
      else case b of
             Content (Some p) \<Rightarrow> False
           | _ \<Rightarrow> True)"

text \<open>The delay that a throttle response suggests, with the source's one second added.\<close>

fun retry_hint :: "response \<Rightarrow> int option" where
  "retry_hint Failed = None"
| "retry_hint (Http statusCode b) = (if statusCode = 429 then parseRetryAfter b else None)"

text \<open>
  Start times in which each is at least \<open>d\<close> after the one before. The trace of requests
  is sound for \<open>d\<close> when it is so spaced and the object's \<open>lastRequestTime\<close> lies between
  the last start and the clock.
\<close>

fun spaced :: "int \<Rightarrow> int list \<Rightarrow> bool" where
  "spaced d [] = True"
| "spaced d [t] = True"
| "spaced d (t # u # ts) = (if u - t \<ge> d then spaced d (u # ts) else False)"

definition trace_ok :: "int \<Rightarrow> classifier \<Rightarrow> bool" where
  "trace_ok d s =
     (spaced d (requests s)
      \<and> (if requests s = [] then True else last (requests s) \<le> lastRequestTime s)
      \<and> lastRequestTime s \<le> clock s)"

text \<open>An idle queue, and a job that \<open>queueMessage\<close> does not skip.\<close>

definition idle :: "classifier \<Rightarrow> bool" where
  "idle s = (enabled s \<and> queue s = [] \<and> \<not> processing s \<and> batchTimer s = None
             \<and> nextBatchAt s = [] \<and> inflight s = None)"

definition valid_job :: "job \<Rightarrow> bool" where
  "valid_job j = (j_body j \<noteq> [] \<and> length (trim (j_body j)) \<ge> 3)"

fun valid_event :: "event \<Rightarrow> bool" where
  "valid_event (Enqueue j) = valid_job j"
| "valid_event (Elapse ms) = (ms \<ge> 0)"

text \<open>
  The fields that a call of the service leaves alone: it moves the clock, stamps
  \<open>lastRequestTime\<close>, records the request and counts calls and errors.
\<close>

definition same_outside :: "classifier \<Rightarrow> classifier \<Rightarrow> bool" where
  "same_outside s s' =
     (queue s' = queue s \<and> callbacks s' = callbacks s \<and> processing s' = processing s
      \<and> inflight s' = inflight s \<and> nextBatchAt s' = nextBatchAt s
      \<and> batchTimer s' = batchTimer s \<and> batchSize s' = batchSize s
      \<and> batchDelayMs s' = batchDelayMs s \<and> rateLimitDelayMs s' = rateLimitDelayMs s
      \<and> retryBaseDelayMs s' = retryBaseDelayMs s \<and> maxRetries s' = maxRetries s
      \<and> apiKey s' = apiKey s \<and> enabled s' = enabled s
      \<and> stat_classified s' = stat_classified s)"

text \<open>
  The state in which the loop may send a request: the trace is sound and the clock is at
  least \<open>d\<close> past the last start.
\<close>

definition ready :: "int \<Rightarrow> classifier \<Rightarrow> bool" where
  "ready d s =
     (trace_ok d s \<and> (if requests s = [] then True else last (requests s) + d \<le> clock s))"

text \<open>
  The queue while it collects a batch from the idle state \<open>s\<close>: the jobs enqueued by the
  events so far are all in the queue, nothing has been dispatched, and once there is a
  job the batch timer is pending with a deadline no earlier than the window's end.
\<close>

definition collecting :: "classifier \<Rightarrow> event list \<Rightarrow> classifier \<Rightarrow> bool" where
  "collecting s es s' =
     (queue s' = enqueued es \<and> \<not> processing s' \<and> inflight s' = None \<and> nextBatchAt s' = []
      \<and> enabled s' \<and> batchSize s' = batchSize s \<and> batchDelayMs s' = batchDelayMs s
      \<and> clock s' = clock s + elapsed_ms es
      \<and> (if enqueued es = [] then batchTimer s' = None
          else \<exists>t. batchTimer s' = Some t \<and> clock s + batchDelayMs s \<le> t))"

section \<open>Properties of the analyzer's entry point\<close>

text \<open>
  Claim C10. For every inbound message with \<open>fromMe = true\<close>, \<open>analyze\<close> returns the
  all-negative result (no mention, no question, no directed question, no direct message,
  no question analysis), whatever the body, the chat type and the mention ids are.
\<close>

theorem analyze_fromMe_all_negative:
  "m_fromMe message \<Longrightarrow>
   analyze a message myId myLid isGroupChat =
     \<lparr>r_isMention = False, r_isQuestion = False, r_isDirectedQuestion = False,
      r_isDirectMessage = False, r_questionAnalysis = None\<rparr>"
  by (simp add: analyze_def)

text \<open>
  The tracked user's own message, which names the user, mentions the user's id and reads
  like a request.
\<close>

theorem analyze_fromMe_all_negative_witness:
  "m_fromMe own_message \<and>
   analyze (setTrackName ''Austin'') own_message ''15550001@c.us'' [] True =
     \<lparr>r_isMention = False, r_isQuestion = False, r_isDirectedQuestion = False,
      r_isDirectMessage = False, r_questionAnalysis = None\<rparr>"
proof -
  have h: "m_fromMe own_message" by (simp add: own_message_def)
  show ?thesis
    using h analyze_fromMe_all_negative
            [OF h, of "setTrackName ''Austin''" "''15550001@c.us''" "[]" True]
    by simp
qed

text \<open>
  The same message from someone else is a mention and a question directed at the tracked
  user, so the flag alone makes the difference.
\<close>

lemma analyze_same_message_from_other:
  "analyze (setTrackName ''Austin'') (own_message\<lparr>m_fromMe := False\<rparr>) ''15550001@c.us'' [] True
     = \<lparr>r_isMention = True, r_isQuestion = True, r_isDirectedQuestion = True,
        r_isDirectMessage = False,
        r_questionAnalysis =
          Some \<lparr>qa_questionType = Action_request, qa_priority = Normal,
                qa_keywords = [''austin'', ''send'', ''invoice''], qa_directedAtMe = True\<rparr>\<rparr>"
  by code_simp

section \<open>Properties of the question lifecycle\<close>

lemma accepted_store_simp:
  "accepted_store =
     \<lparr>questions = [example_question\<lparr>q_status := QAnswered, q_answered_by := Some ''Alice'',
         q_answered_at := Some 1060000, q_answer_confidence := Some (3 / 10),
         q_answer_reason := Some ''manually accepted'', q_answer_preview := Some ''I think so'',
         q_answer_id := Some ''ac_1'', q_manually_resolved := True\<rparr>],
      answer_candidates = [example_candidate\<lparr>ac_is_accepted := True\<rparr>]\<rparr>"
  by (simp add: accepted_store_def acceptAnswerCandidate_def example_question_def
        example_candidate_def update_where_def)

text \<open>
  Claim C9. Reopening a question sets its status to open and clears \<open>answeredBy\<close>,
  \<open>answeredAt\<close>, \<open>answerConfidence\<close>, \<open>answerReason\<close>, \<open>answerId\<close>, \<open>dismissed\<close>,
  \<open>dismissedBy\<close>, \<open>dismissedAt\<close> and \<open>manuallyResolved\<close>; the id, chat id, sender, body,
  timestamp, priority, question type and keywords of the question stay as they were, and
  so do its chat name, message id, directed-at-me flag, category, media columns and
  classification columns. The row is the one at position \<open>i\<close> of the table, whatever its
  status was. The answer preview, a column derived from the answer that the data model
  of the specification does not list, is cleared with the other answer columns.
\<close>

theorem reopenQuestion_frame:
  assumes "i < length (questions st)"
    and "q = questions st ! i"
    and "q_id q = questionId"
    and "q' = questions (reopenQuestion questionId st) ! i"
  shows "q_status q' = QOpen
       \<and> q_answered_by q' = None \<and> q_answered_at q' = None \<and> q_answer_confidence q' = None
       \<and> q_answer_reason q' = None \<and> q_answer_id q' = None \<and> q_answer_preview q' = None
       \<and> q_dismissed q' = False \<and> q_dismissed_by q' = None \<and> q_dismissed_at q' = None
       \<and> q_manually_resolved q' = False
       \<and> q_id q' = q_id q \<and> q_chat_id q' = q_chat_id q \<and> q_chat_name q' = q_chat_name q
       \<and> q_sender q' = q_sender q \<and> q_body q' = q_body q \<and> q_timestamp q' = q_timestamp q
       \<and> q_msg_id q' = q_msg_id q \<and> q_directed_at_me q' = q_directed_at_me q
       \<and> q_priority q' = q_priority q \<and> q_question_type q' = q_question_type q
       \<and> q_keywords q' = q_keywords q \<and> q_category q' = q_category q
       \<and> q_has_media q' = q_has_media q \<and> q_media_type q' = q_media_type q
       \<and> q_classified_by q' = q_classified_by q \<and> q_ai_confidence q' = q_ai_confidence q
       \<and> q_ai_intent q' = q_ai_intent q \<and> q_ai_summary q' = q_ai_summary q
       \<and> q_ai_is_actionable q' = q_ai_is_actionable q"
  using assms by (simp add: reopenQuestion_def update_where_def)

text \<open>Reopening the question that an operator has answered by accepting a candidate.\<close>

theorem reopenQuestion_frame_witness:
  "q_status (questions accepted_store ! 0) = QAnswered
   \<and> q_answer_id (questions accepted_store ! 0) = Some ''ac_1''
   \<and> q_manually_resolved (questions accepted_store ! 0)
   \<and> q_status (questions (reopenQuestion ''q_1'' accepted_store) ! 0) = QOpen
   \<and> q_answered_by (questions (reopenQuestion ''q_1'' accepted_store) ! 0) = None
   \<and> q_answer_id (questions (reopenQuestion ''q_1'' accepted_store) ! 0) = None
   \<and> q_manually_resolved (questions (reopenQuestion ''q_1'' accepted_store) ! 0) = False
   \<and> q_body (questions (reopenQuestion ''q_1'' accepted_store) ! 0) = ''Is the report done?''
   \<and> q_keywords (questions (reopenQuestion ''q_1'' accepted_store) ! 0) = [''report'', ''done'']"
proof -
  have h1: "0 < length (questions accepted_store)"
    and h2: "q_id (questions accepted_store ! 0) = ''q_1''"
    by (simp_all add: accepted_store_simp example_question_def)
  show ?thesis
    using reopenQuestion_frame [OF h1 refl h2 refl]
    by (simp add: accepted_store_simp example_question_def)
qed

text \<open>
  Claim C4, as amended. When the classifier's result has an intent other than
  \<open>question\<close> and a confidence of at least 0.8, applying it to a stored question sets the
  status to dismissed with actor \<open>AI (not a question)\<close>, whatever the status was before:
  an open question is dismissed, and so is one that a human has answered or accepted.
  The override writes no status other than dismissed, and it leaves the answer columns
  (\<open>answeredBy\<close>, \<open>answeredAt\<close>, \<open>answerConfidence\<close>, \<open>answerReason\<close>, \<open>answerId\<close>,
  \<open>manuallyResolved\<close>) and the candidates table as they were.
\<close>

theorem updateQuestionAIClassification_dismisses:
  assumes "i < length (questions st)"
    and "q = questions st ! i"
    and "q_id q = questionId"
    and "q' = questions (updateQuestionAIClassification questionId (Some res) date_now st) ! i"
    and "ar_intent res \<noteq> ''question''"
    and "ar_confidence res \<ge> 8 / 10"
  shows "q_status q' = QDismissed \<and> q_dismissed q' = True
       \<and> q_dismissed_by q' = Some ''AI (not a question)'' \<and> q_dismissed_at q' = Some date_now
       \<and> q_answered_by q' = q_answered_by q \<and> q_answered_at q' = q_answered_at q
       \<and> q_answer_confidence q' = q_answer_confidence q
       \<and> q_answer_reason q' = q_answer_reason q \<and> q_answer_id q' = q_answer_id q
       \<and> q_manually_resolved q' = q_manually_resolved q
       \<and> answer_candidates (updateQuestionAIClassification questionId (Some res) date_now st)
           = answer_candidates st"
  using assms
  by (simp add: updateQuestionAIClassification_def update_where_def ai_update_def Let_def
           split: option.splits)

text \<open>The result \<open>fyi\<close> with confidence 0.9 applied to the manually accepted question.\<close>

theorem updateQuestionAIClassification_dismisses_witness:
  "q_status (questions accepted_store ! 0) = QAnswered
   \<and> q_manually_resolved (questions accepted_store ! 0)
   \<and> q_status (questions (updateQuestionAIClassification ''q_1'' (Some not_a_question) 1090000
                  accepted_store) ! 0) = QDismissed
   \<and> q_dismissed_by (questions (updateQuestionAIClassification ''q_1'' (Some not_a_question)
                  1090000 accepted_store) ! 0) = Some ''AI (not a question)''
   \<and> q_answer_id (questions (updateQuestionAIClassification ''q_1'' (Some not_a_question)
                  1090000 accepted_store) ! 0) = Some ''ac_1''"
proof -
  have h1: "0 < length (questions accepted_store)"
    and h2: "q_id (questions accepted_store ! 0) = ''q_1''"
    and h3: "ar_intent not_a_question \<noteq> ''question''"
    and h4: "ar_confidence not_a_question \<ge> 8 / 10"
    by (simp_all add: accepted_store_simp example_question_def not_a_question_def)
  show ?thesis
    using updateQuestionAIClassification_dismisses [OF h1 refl h2 refl h3 h4, of 1090000]
    by (simp add: accepted_store_simp example_question_def)
qed

text \<open>
  Claim C4 as stated fails: the question that an operator answered by accepting a
  candidate does not keep its state. The automated override changes its status.
\<close>

theorem ai_override_undoes_acceptance_counterexample:
  "q_status (questions accepted_store ! 0) = QAnswered
   \<and> q_answer_reason (questions accepted_store ! 0) = Some ''manually accepted''
   \<and> q_status (questions (updateQuestionAIClassification ''q_1'' (Some not_a_question) 1090000
                  accepted_store) ! 0) \<noteq> QAnswered"
  by (simp add: accepted_store_simp updateQuestionAIClassification_def update_where_def
        ai_update_def example_question_def not_a_question_def)

section \<open>Properties of the deterministic classification\<close>

lemma invoice_trim: "trim invoice_text = invoice_text"
  unfolding invoice_text_def by code_simp

lemma invoice_length: "length invoice_text = 33"
  unfolding invoice_text_def by simp

lemma invoice_nonempty: "invoice_text \<noteq> []"
  unfolding invoice_text_def by simp

lemma invoice_not_nonQuestion: "\<not> isNonQuestion invoice_text"
  unfolding invoice_text_def by code_simp

lemma invoice_questionType: "classifyQuestionType invoice_text = Some Yes_no"
  unfolding invoice_text_def by code_simp

lemma invoice_urgentWords: "test urgentWords (toLowerCase invoice_text)"
  unfolding invoice_text_def by code_simp

lemma invoice_highWords: "\<not> test highWords (toLowerCase invoice_text)"
  unfolding invoice_text_def by code_simp

lemma invoice_lowWords: "\<not> test lowWords (toLowerCase invoice_text)"
  unfolding invoice_text_def by code_simp

lemma invoice_keywords: "extractKeywords invoice_text = [''send'', ''invoice'', ''asap'']"
  unfolding invoice_text_def by code_simp

text \<open>
  The text does match the first action-request pattern; the yes/no group is tested
  before the action-request group and matches first.
\<close>

lemma invoice_matches_action_pattern:
  "any_test actionPatterns (trim (toLowerCase invoice_text))"
  unfolding invoice_text_def by code_simp

text \<open>
  Claim C2, as amended. Classifying the text \<open>Can you send me the invoice ASAP?\<close> yields
  question type \<open>yes_no\<close> and priority \<open>urgent\<close>, with or without chat context: the text
  starts with \<open>can\<close> and contains a question mark, so the yes/no rule group, which is
  tested first, decides the type; the urgency vocabulary alone gives the priority.
\<close>

theorem invoice_yes_no_urgent:
  "analyzeQuestion a
     \<lparr>m_body = invoice_text, m_fromMe = fromMe, m_mentionedIds = ids, m_hasQuotedMsg = hasQuoted,
      m_quotedMsgBody = quoted\<rparr> myId myLid isGroupChat
   = Some \<lparr>qa_questionType = Yes_no, qa_priority = Urgent,
           qa_keywords = [''send'', ''invoice'', ''asap''],
           qa_directedAtMe =
             isDirectedAtMe a
               \<lparr>m_body = invoice_text, m_fromMe = fromMe, m_mentionedIds = ids,
                m_hasQuotedMsg = hasQuoted, m_quotedMsgBody = quoted\<rparr> myId myLid isGroupChat\<rparr>"
  by (simp add: analyzeQuestion_def classifyPriority_def Let_def invoice_trim invoice_length
        invoice_nonempty invoice_not_nonQuestion invoice_questionType invoice_urgentWords
        invoice_highWords invoice_lowWords invoice_keywords)

text \<open>The text with no chat context: no tracked name, no ids, not a group chat.\<close>

theorem invoice_yes_no_urgent_witness:
  "analyzeQuestion (setTrackName [])
     \<lparr>m_body = invoice_text, m_fromMe = False, m_mentionedIds = [], m_hasQuotedMsg = False,
      m_quotedMsgBody = []\<rparr> [] [] False
   = Some \<lparr>qa_questionType = Yes_no, qa_priority = Urgent,
           qa_keywords = [''send'', ''invoice'', ''asap''], qa_directedAtMe = True\<rparr>"
  using invoice_yes_no_urgent [of "setTrackName []" False "[]" False "[]" "[]" "[]" False]
  by (simp add: isDirectedAtMe_def)

text \<open>Claim C2 as stated fails: the question type of the text is not \<open>action_request\<close>.\<close>

theorem invoice_action_request_counterexample:
  "map_option qa_questionType
     (analyzeQuestion (setTrackName [])
        \<lparr>m_body = invoice_text, m_fromMe = False, m_mentionedIds = [], m_hasQuotedMsg = False,
         m_quotedMsgBody = []\<rparr> [] [] False)
   \<noteq> Some Action_request"
  by (simp add: analyzeQuestion_def Let_def invoice_trim invoice_length invoice_nonempty
        invoice_not_nonQuestion invoice_questionType)

section \<open>Properties of the answer scoring\<close>

lemma signal_quoted_reply_isFromMe:
  "signal_quoted_reply question qBody (opts\<lparr>isFromMe := b\<rparr>) t
     = signal_quoted_reply question qBody opts t"
  by (simp add: signal_quoted_reply_def cong: if_cong)

lemma signal_time_proximity_isFromMe:
  "signal_time_proximity (opts\<lparr>isFromMe := b\<rparr>) t = signal_time_proximity opts t"
  by (simp add: signal_time_proximity_def cong: if_cong)

lemma signal_conversation_proximity_isFromMe:
  "signal_conversation_proximity (opts\<lparr>isFromMe := b\<rparr>) t
     = signal_conversation_proximity opts t"
  by (simp add: signal_conversation_proximity_def cong: if_cong)

lemma signals_before_penalty_isFromMe:
  "signals_before_penalty question qBody aBody (opts\<lparr>isFromMe := b\<rparr>)
     = signals_before_penalty question qBody aBody opts"
  unfolding signals_before_penalty_def signal_quoted_reply_isFromMe
    signal_time_proximity_isFromMe signal_conversation_proximity_isFromMe
  by (rule refl)

lemma totalScore_self:
  "cm_sender candidateMsg = sq_sender question \<Longrightarrow>
   fst (totalScore question candidateMsg opts)
     = fst (signals_after_penalty question (trim (toLowerCase (cm_body candidateMsg)))
              (dmul (fst (signals_before_penalty question (trim (toLowerCase (sq_body question)))
                            (trim (toLowerCase (cm_body candidateMsg))) opts))
                    (dbl (3 / 10))))"
  by (simp add: totalScore_def signal_self_reply_def signal_manager_reply_def Let_def)

lemma totalScore_other:
  "cm_sender candidateMsg \<noteq> sq_sender question \<Longrightarrow> \<not> isFromMe opts \<Longrightarrow>
   fst (totalScore question candidateMsg opts)
     = fst (signals_after_penalty question (trim (toLowerCase (cm_body candidateMsg)))
              (fst (signals_before_penalty question (trim (toLowerCase (sq_body question)))
                      (trim (toLowerCase (cm_body candidateMsg))) opts)))"
  by (simp add: totalScore_def signal_self_reply_def signal_manager_reply_def Let_def)

text \<open>
  Claim C3, as amended. When the candidate's sender is the question's sender, whatever
  the context options are, the factor 0.3 multiplies the running total of the six
  signals that come before the penalty (\<open>quoted_reply\<close>, \<open>answer_pattern\<close>,
  \<open>keyword_overlap\<close>, \<open>addresses_asker\<close>, \<open>time_proximity\<close>, \<open>conversation_proximity\<close>);
  \<open>substantive_reply\<close> and \<open>type_match\<close> are added to the product in full, and the
  confidence is that total clamped to the unit interval and rounded to two decimals. On
  the same inputs with a different sender and the manager boost excluded, the confidence
  is the same two late signals added to the same running total, not scaled, then clamped
  and rounded. All of it is binary64 arithmetic in the order of the source. A candidate
  whose body is empty after trimming has confidence zero in both cases.
\<close>

theorem scoreAnswer_self_reply:
  assumes "cm_sender candidateMsg = sq_sender question"
    and "other \<noteq> sq_sender question"
  shows "fst (scoreAnswer question candidateMsg opts)
           = (if trim (toLowerCase (cm_body candidateMsg)) = [] then 0
              else confidence_of
                     (fst (signals_after_penalty question
                             (trim (toLowerCase (cm_body candidateMsg)))
                             (dmul (fst (signals_before_penalty question
                                           (trim (toLowerCase (sq_body question)))
                                           (trim (toLowerCase (cm_body candidateMsg))) opts))
                                   (dbl (3 / 10))))))
       \<and> fst (scoreAnswer question (candidateMsg\<lparr>cm_sender := other\<rparr>) (opts\<lparr>isFromMe := False\<rparr>))
           = (if trim (toLowerCase (cm_body candidateMsg)) = [] then 0
              else confidence_of
                     (fst (signals_after_penalty question
                             (trim (toLowerCase (cm_body candidateMsg)))
                             (fst (signals_before_penalty question
                                     (trim (toLowerCase (sq_body question)))
                                     (trim (toLowerCase (cm_body candidateMsg))) opts)))))"
proof
  show "fst (scoreAnswer question candidateMsg opts)
           = (if trim (toLowerCase (cm_body candidateMsg)) = [] then 0
              else confidence_of
                     (fst (signals_after_penalty question
                             (trim (toLowerCase (cm_body candidateMsg)))
                             (dmul (fst (signals_before_penalty question
                                           (trim (toLowerCase (sq_body question)))
                                           (trim (toLowerCase (cm_body candidateMsg))) opts))
                                   (dbl (3 / 10))))))"
    using totalScore_self [OF assms(1), of opts]
    by (simp add: scoreAnswer_def Let_def split_def)
  have "fst (totalScore question (candidateMsg\<lparr>cm_sender := other\<rparr>) (opts\<lparr>isFromMe := False\<rparr>))
          = fst (signals_after_penalty question (trim (toLowerCase (cm_body candidateMsg)))
                   (fst (signals_before_penalty question (trim (toLowerCase (sq_body question)))
                           (trim (toLowerCase (cm_body candidateMsg))) opts)))"
    using totalScore_other [of "candidateMsg\<lparr>cm_sender := other\<rparr>" question
                               "opts\<lparr>isFromMe := False\<rparr>"] assms(2)
    by (simp add: signals_before_penalty_isFromMe)
  then show "fst (scoreAnswer question (candidateMsg\<lparr>cm_sender := other\<rparr>)
                    (opts\<lparr>isFromMe := False\<rparr>))
           = (if trim (toLowerCase (cm_body candidateMsg)) = [] then 0
              else confidence_of
                     (fst (signals_after_penalty question
                             (trim (toLowerCase (cm_body candidateMsg)))
                             (fst (signals_before_penalty question
                                     (trim (toLowerCase (sq_body question)))
                                     (trim (toLowerCase (cm_body candidateMsg))) opts)))))"
    by (simp add: scoreAnswer_def Let_def split_def)
qed

lemma yes_from_asker:
  "fst (scoreAnswer yes_no_question \<lparr>cm_body = ''yes'', cm_sender = ''Bob''\<rparr>
          (default_options\<lparr>isFromMe := True\<rparr>)) = dbl (39 / 100)"
  by code_simp

lemma yes_from_other:
  "fst (scoreAnswer yes_no_question \<lparr>cm_body = ''yes'', cm_sender = ''Alice''\<rparr>
          (default_options\<lparr>isFromMe := False\<rparr>)) = dbl (87 / 100)"
  by code_simp

lemma yes_trim: "trim (toLowerCase ''yes'') = ''yes''"
  by code_simp

lemma yes_before_penalty:
  "fst (signals_before_penalty yes_no_question (trim (toLowerCase (sq_body yes_no_question)))
          ''yes'' (default_options\<lparr>isFromMe := True\<rparr>))
     = dadd (dadd (dmul (dbl (85 / 100)) (dbl (4 / 10))) (dbl (2 / 10))) (dbl (15 / 100))"
  by code_simp

text \<open>
  The answer \<open>yes\<close> to a yes/no question, from the asker (who is also the tracked user) and
  from someone else: 0.39 and 0.87.
\<close>

theorem scoreAnswer_self_reply_witness:
  "fst (scoreAnswer yes_no_question \<lparr>cm_body = ''yes'', cm_sender = ''Bob''\<rparr>
          (default_options\<lparr>isFromMe := True\<rparr>))
     = confidence_of
         (fst (signals_after_penalty yes_no_question ''yes''
                 (dmul (dadd (dadd (dmul (dbl (85 / 100)) (dbl (4 / 10))) (dbl (2 / 10)))
                             (dbl (15 / 100)))
                       (dbl (3 / 10)))))
   \<and> fst (scoreAnswer yes_no_question \<lparr>cm_body = ''yes'', cm_sender = ''Bob''\<rparr>
            (default_options\<lparr>isFromMe := True\<rparr>)) = dbl (39 / 100)
   \<and> fst (scoreAnswer yes_no_question \<lparr>cm_body = ''yes'', cm_sender = ''Alice''\<rparr>
            (default_options\<lparr>isFromMe := False\<rparr>))
     = confidence_of
         (fst (signals_after_penalty yes_no_question ''yes''
                 (dadd (dadd (dmul (dbl (85 / 100)) (dbl (4 / 10))) (dbl (2 / 10)))
                       (dbl (15 / 100)))))
   \<and> fst (scoreAnswer yes_no_question \<lparr>cm_body = ''yes'', cm_sender = ''Alice''\<rparr>
            (default_options\<lparr>isFromMe := False\<rparr>)) = dbl (87 / 100)"
proof -
  have h1: "cm_sender \<lparr>cm_body = ''yes'', cm_sender = ''Bob''\<rparr> = sq_sender yes_no_question"
    and h2: "''Alice'' \<noteq> sq_sender yes_no_question"
    by (simp_all add: yes_no_question_def)
  have opts: "default_options\<lparr>isFromMe := True, isFromMe := False\<rparr>
                = default_options\<lparr>isFromMe := False\<rparr>"
    by simp
  show ?thesis
    using scoreAnswer_self_reply [OF h1 h2, of "default_options\<lparr>isFromMe := True\<rparr>"]
          yes_from_asker yes_from_other
    by (simp add: yes_trim yes_before_penalty)
qed

text \<open>
  Claim C3 as stated fails: the asker's own \<open>yes\<close> scores 0.39, which is more than 0.3
  times the 0.87 that the same answer scores from another sender.
\<close>

theorem self_reply_bound_counterexample:
  "cm_sender \<lparr>cm_body = ''yes'', cm_sender = ''Bob''\<rparr> = sq_sender yes_no_question
   \<and> \<not> fst (scoreAnswer yes_no_question \<lparr>cm_body = ''yes'', cm_sender = ''Bob''\<rparr> default_options)
         \<le> 3 / 10 * fst (scoreAnswer yes_no_question \<lparr>cm_body = ''yes'', cm_sender = ''Alice''\<rparr>
                            default_options)"
  by code_simp

text \<open>
  The rounding of the doubles shows in the result: the six early signals of the asker's
  own \<open>report done\<close>, half an hour and three messages after the question, sum to 0.75;
  the product with 0.3 is the double just below 0.225, and the confidence is 0.22.
\<close>

lemma self_reply_product_rounds_down:
  "fst (scoreAnswer yes_no_question \<lparr>cm_body = ''report done'', cm_sender = ''Bob''\<rparr>
          (default_options\<lparr>timeDeltaMs := 1800000, recentMsgCount := 3\<rparr>)) = dbl (22 / 100)"
  by code_simp

section \<open>Properties of the accepted-candidate flag\<close>

text \<open>
  Manual acceptance keeps the flag unique. With the ids of the candidates table distinct
  (the id is its primary key), accepting candidate \<open>c\<close> leaves \<open>c\<close> as the only accepted
  candidate of its question, and the question answered with \<open>answerId\<close> the id of \<open>c\<close>.
\<close>

lemma filter_unique_id:
  "distinct (map ac_id xs) \<Longrightarrow> c \<in> set xs \<Longrightarrow> filter (\<lambda>x. ac_id x = ac_id c) xs = [c]"
proof (induction xs)
  case Nil
  then show ?case by simp
next
  case (Cons x xs)
  show ?case
  proof (cases "x = c")
    case True
    with Cons.prems have "ac_id c \<notin> ac_id ` set xs" by simp
    then have "\<forall>y \<in> set xs. ac_id y \<noteq> ac_id c" by (metis image_eqI)
    then have "filter (\<lambda>x. ac_id x = ac_id c) xs = []" by (simp add: filter_empty_conv)
    with True show ?thesis by simp
  next
    case False
    with Cons.prems have "c \<in> set xs" and "ac_id x \<noteq> ac_id c" by auto
    with Cons show ?thesis by simp
  qed
qed

lemma accept_rows_none:
  "\<forall>y \<in> set xs. ac_id y \<noteq> cid \<Longrightarrow>
   filter (\<lambda>x. ac_question_id x = qid \<and> ac_is_accepted x) (map (accept_row cid qid) xs) = []"
  by (induction xs) (auto simp: accept_row_def)

lemma accept_rows_one:
  "distinct (map ac_id xs) \<Longrightarrow> c \<in> set xs \<Longrightarrow>
   map ac_id (filter (\<lambda>x. ac_question_id x = ac_question_id c \<and> ac_is_accepted x)
                (map (accept_row (ac_id c) (ac_question_id c)) xs)) = [ac_id c]"
proof (induction xs)
  case Nil
  then show ?case by simp
next
  case (Cons x xs)
  show ?case
  proof (cases "x = c")
    case True
    with Cons.prems have "ac_id c \<notin> ac_id ` set xs" by simp
    then have "\<forall>y \<in> set xs. ac_id y \<noteq> ac_id c" by (metis image_eqI)
    from accept_rows_none [OF this, of "ac_question_id c"]
    have rest: "filter (\<lambda>x. ac_question_id x = ac_question_id c \<and> ac_is_accepted x)
                  (map (accept_row (ac_id c) (ac_question_id c)) xs) = []" .
    have "accept_row (ac_id c) (ac_question_id c) c = c\<lparr>ac_is_accepted := True\<rparr>"
      by (simp add: accept_row_def)
    with rest True show ?thesis by simp
  next
    case False
    with Cons.prems have mem: "c \<in> set xs" and neq: "ac_id x \<noteq> ac_id c" by auto
    from neq have "\<not> (ac_question_id (accept_row (ac_id c) (ac_question_id c) x) = ac_question_id c
                     \<and> ac_is_accepted (accept_row (ac_id c) (ac_question_id c) x))"
      by (simp add: accept_row_def)
    with Cons mem show ?thesis by simp
  qed
qed

lemma acceptAnswerCandidate_candidates:
  assumes "distinct (map ac_id (answer_candidates st))" and "c \<in> set (answer_candidates st)"
  shows "answer_candidates (acceptAnswerCandidate (ac_id c) st)
           = map (accept_row (ac_id c) (ac_question_id c)) (answer_candidates st)"
  using filter_unique_id [OF assms]
  by (auto simp: acceptAnswerCandidate_def update_where_def accept_row_def Let_def)

lemma acceptAnswerCandidate_exactly_one:
  assumes "distinct (map ac_id (answer_candidates st))" and "c \<in> set (answer_candidates st)"
    and "i < length (questions st)" and "q_id (questions st ! i) = ac_question_id c"
  shows "map ac_id (filter (\<lambda>x. ac_question_id x = ac_question_id c \<and> ac_is_accepted x)
                      (answer_candidates (acceptAnswerCandidate (ac_id c) st))) = [ac_id c]
       \<and> q_answer_id (questions (acceptAnswerCandidate (ac_id c) st) ! i) = Some (ac_id c)
       \<and> q_status (questions (acceptAnswerCandidate (ac_id c) st) ! i) = QAnswered"
proof -
  have "q_answer_id (questions (acceptAnswerCandidate (ac_id c) st) ! i) = Some (ac_id c)
      \<and> q_status (questions (acceptAnswerCandidate (ac_id c) st) ! i) = QAnswered"
    using filter_unique_id [OF assms(1,2)] assms(3,4)
    by (simp add: acceptAnswerCandidate_def update_where_def Let_def)
  then show ?thesis
    using accept_rows_one [OF assms(1,2)] acceptAnswerCandidate_candidates [OF assms(1,2)]
    by simp
qed

lemma answered_once_candidates:
  "map (\<lambda>c. (ac_id c, ac_question_id c, ac_confidence c, ac_is_accepted c))
       (answer_candidates answered_once)
     = [(''ac_0'', ''q_1'', dbl (69 / 100), True)]"
  by code_simp

text \<open>
  Claim C5. At most one candidate of a question is accepted, after every operation of the
  lifecycle. The code breaks this on re-answer after reopen: reopening clears the
  question's answer columns but leaves the accepted flag of the old candidate set, and the
  next automatic answer inserts a second accepted candidate without clearing the first.
  Here the question is answered by \<open>yes\<close> (confidence 0.69), reopened, and answered by
  \<open>yes it is\<close>: both candidates of the question are accepted, and the question points at
  the second.
\<close>

theorem reanswer_after_reopen_two_accepted:
  "map (\<lambda>c. (ac_id c, ac_question_id c, ac_is_accepted c)) (answer_candidates answered_twice)
     = [(''ac_0'', ''q_1'', True), (''ac_1'', ''q_1'', True)]
   \<and> map q_answer_id (questions answered_twice) = [Some ''ac_1'']"
  by code_simp

section \<open>Properties of the classification queue\<close>

subsection \<open>The rounds of the retry loop\<close>

lemma send_request_maxRetries [simp]: "maxRetries (send_request a s) = maxRetries s"
  by (simp add: send_request_def Let_def)

lemma loop_done:
  "attempt > maxRetries s \<Longrightarrow> callAPI_loop http n attempt s = (replicate n None, s)"
  by (subst callAPI_loop.simps) simp

lemma loop_return:
  "\<not> attempt > maxRetries s \<Longrightarrow>
   handle_response n attempt (response (http (length (requests s))))
     (send_request (http (length (requests s))) s) = Inr (Some results, s3) \<Longrightarrow>
   callAPI_loop http n attempt s = (results, s3)"
  by (subst callAPI_loop.simps) (simp add: Let_def)

lemma loop_continue:
  "\<not> attempt > maxRetries s \<Longrightarrow>
   handle_response n attempt (response (http (length (requests s))))
     (send_request (http (length (requests s))) s) = Inr (None, s3) \<Longrightarrow>
   callAPI_loop http n attempt s = callAPI_loop http n (Suc attempt) s3"
  by (subst callAPI_loop.simps) (simp add: Let_def)

lemma loop_catch_retry:
  "attempt < maxRetries s \<Longrightarrow>
   handle_response n attempt (response (http (length (requests s))))
     (send_request (http (length (requests s))) s) = Inl err \<Longrightarrow>
   callAPI_loop http n attempt s
     = callAPI_loop http n (Suc attempt)
         (sleep (retryBaseDelayMs s * 2 ^ attempt) (send_request (http (length (requests s))) s))"
  by (subst callAPI_loop.simps) (simp add: Let_def send_request_def)

lemma loop_catch_giveup:
  "attempt = maxRetries s \<Longrightarrow>
   handle_response n attempt (response (http (length (requests s))))
     (send_request (http (length (requests s))) s) = Inl err \<Longrightarrow>
   callAPI_loop http n attempt s
     = (replicate n None,
        (send_request (http (length (requests s))) s)
          \<lparr>stat_errors := stat_errors (send_request (http (length (requests s))) s) + 1\<rparr>)"
  by (subst callAPI_loop.simps) (simp add: Let_def)

text \<open>Induction over the rounds of the loop.\<close>

lemma callAPI_loop_rounds [case_names round]:
  assumes "\<And>attempt s.
             (\<And>s3. attempt \<le> maxRetries s \<Longrightarrow>
                    handle_response n attempt (response (http (length (requests s))))
                      (send_request (http (length (requests s))) s) = Inr (None, s3) \<Longrightarrow>
                    P (Suc attempt) s3) \<Longrightarrow>
             (\<And>err. attempt < maxRetries s \<Longrightarrow>
                    handle_response n attempt (response (http (length (requests s))))
                      (send_request (http (length (requests s))) s) = Inl err \<Longrightarrow>
                    P (Suc attempt)
                      (sleep (retryBaseDelayMs s * 2 ^ attempt)
                         (send_request (http (length (requests s))) s))) \<Longrightarrow>
             P attempt s"
  shows "P attempt s"
proof (induction "Suc (maxRetries s) - attempt" arbitrary: attempt s rule: less_induct)
  case less
  show ?case
  proof (rule assms)
    fix s3
    assume le: "attempt \<le> maxRetries s"
      and h: "handle_response n attempt (response (http (length (requests s))))
             (send_request (http (length (requests s))) s) = Inr (None, s3)"
    from handle_response_maxRetries [OF h] have "maxRetries s3 = maxRetries s" by simp
    with le show "P (Suc attempt) s3" by (intro less) simp
  next
    fix err
    assume "attempt < maxRetries s"
    then show "P (Suc attempt)
                 (sleep (retryBaseDelayMs s * 2 ^ attempt)
                    (send_request (http (length (requests s))) s))"
      by (intro less) (simp add: sleep_def)
  qed
qed


lemma same_outside_refl [simp]: "same_outside s s"
  by (simp add: same_outside_def)

lemma same_outside_trans: "same_outside s s1 \<Longrightarrow> same_outside s1 s2 \<Longrightarrow> same_outside s s2"
  by (simp add: same_outside_def)

lemma send_request_same: "same_outside s (send_request a s)"
  by (simp add: same_outside_def send_request_def Let_def)

lemma sleep_same: "same_outside s (sleep ms s)"
  by (simp add: same_outside_def sleep_def)

lemma handle_response_same:
  "handle_response n attempt resp s = Inr (r, s') \<Longrightarrow> same_outside s s'"
  by (auto simp: handle_response_def same_outside_def sleep_def Let_def
           split: response.splits body.splits option.splits parsed.splits if_splits)

lemma callAPI_loop_same: "same_outside s (snd (callAPI_loop http n attempt s))"
proof (induction attempt s rule: callAPI_loop_rounds [where http = http and n = n])
  case (round attempt s)
  let ?a = "http (length (requests s))"
  let ?s2 = "send_request ?a s"
  show ?case
  proof (cases "attempt > maxRetries s")
    case True
    then show ?thesis by (simp add: loop_done)
  next
    case False
    then have le: "attempt \<le> maxRetries s" by simp
    show ?thesis
    proof (cases "handle_response n attempt (response ?a) ?s2")
      case (Inl err)
      show ?thesis
      proof (cases "attempt < maxRetries s")
        case True
        from round(2) [OF True Inl] send_request_same [of s ?a]
             sleep_same [of ?s2 "retryBaseDelayMs s * 2 ^ attempt"]
        show ?thesis
          by (simp add: loop_catch_retry [where http = http, OF True Inl]) (blast intro: same_outside_trans)
      next
        case nomore: False
        with le have "attempt = maxRetries s" by simp
        from loop_catch_giveup [where http = http, OF this Inl] send_request_same [of s ?a]
        show ?thesis by (simp add: same_outside_def)
      qed
    next
      case (Inr p)
      obtain r s3 where p: "p = (r, s3)" by (cases p)
      from Inr p have s3: "same_outside ?s2 s3" by (auto dest: handle_response_same)
      with send_request_same [of s ?a] have s03: "same_outside s s3"
        by (blast intro: same_outside_trans)
      show ?thesis
      proof (cases r)
        case None
        from round(1) [OF le] Inr p None
        have "same_outside s3 (snd (callAPI_loop http n (Suc attempt) s3))" by simp
        with s03 loop_continue [where http = http and n = n and ?s3.0 = s3, OF False] Inr p None show ?thesis
          by (simp) (blast intro: same_outside_trans)
      next
        case (Some results)
        with s03 loop_return [where http = http and n = n and ?s3.0 = s3 and results = results, OF False] Inr p show ?thesis by simp
      qed
    qed
  qed
qed

lemma handle_response_degrades:
  "degrades resp \<Longrightarrow> handle_response n attempt resp s = Inr (Some results, s') \<Longrightarrow>
   results = replicate n None"
  by (auto simp: handle_response_def Let_def
           split: response.splits body.splits option.splits parsed.splits if_splits)

lemma callAPI_loop_degrades:
  assumes "\<And>i. degrades (response (http i))"
  shows "fst (callAPI_loop http n attempt s) = replicate n None"
proof (induction attempt s rule: callAPI_loop_rounds [where http = http and n = n])
  case (round attempt s)
  let ?a = "http (length (requests s))"
  let ?s2 = "send_request ?a s"
  show ?case
  proof (cases "attempt > maxRetries s")
    case True
    then show ?thesis by (simp add: loop_done)
  next
    case False
    then have le: "attempt \<le> maxRetries s" by simp
    show ?thesis
    proof (cases "handle_response n attempt (response ?a) ?s2")
      case (Inl err)
      show ?thesis
      proof (cases "attempt < maxRetries s")
        case True
        from round(2) [OF True Inl] show ?thesis by (simp add: loop_catch_retry [where http = http, OF True Inl])
      next
        case nomore: False
        with le have "attempt = maxRetries s" by simp
        from loop_catch_giveup [where http = http, OF this Inl] show ?thesis by simp
      qed
    next
      case (Inr p)
      obtain r s3 where p: "p = (r, s3)" by (cases p)
      show ?thesis
      proof (cases r)
        case None
        from round(1) [OF le] Inr p None loop_continue [where http = http and n = n and ?s3.0 = s3, OF False]
        show ?thesis by simp
      next
        case (Some results)
        with Inr p handle_response_degrades [OF assms, of n attempt _ ?s2 results s3]
        have "results = replicate n None" by simp
        with loop_return [where http = http and n = n and ?s3.0 = s3 and results = results, OF False] Inr p Some show ?thesis by simp
      qed
    qed
  qed
qed

subsection \<open>What a batch does to the callbacks and the queue\<close>

lemma deliver_callbacks:
  "callbacks (deliver batch results s) = callbacks s @ deliveries batch results"
proof (induction batch arbitrary: results s)
  case Nil
  then show ?case by (simp add: deliveries_def)
next
  case (Cons item batch)
  show ?case
  proof (cases results)
    case Nil
    with Cons show ?thesis by (simp add: deliveries_def)
  next
    case (Cons r rs)
    with Cons.IH show ?thesis
      by (simp add: deliveries_def Let_def split: option.splits)
  qed
qed



lemma deliver_queue [simp]: "queue (deliver batch results s) = queue s"
  by (induction batch arbitrary: results s) (auto simp: Let_def split: option.splits list.splits)

lemma callAPI_same: "same_outside s (snd (callAPI http messages s))"
proof (cases "apiKey s = [] \<or> messages = []")
  case True
  then show ?thesis by (auto simp: callAPI_def)
next
  case False
  have "same_outside s ((waitForRateLimit s)\<lparr>stat_apiCalls := stat_apiCalls (waitForRateLimit s) + 1\<rparr>)"
    by (simp add: same_outside_def waitForRateLimit_def sleep_def Let_def)
  with False show ?thesis
    by (auto simp: callAPI_def Let_def intro: same_outside_trans callAPI_loop_same)
qed

lemma callAPI_degrades:
  assumes "\<And>i. degrades (response (http i))"
  shows "fst (callAPI http messages s) = [] \<or> fst (callAPI http messages s) = replicate (length messages) None"
  using callAPI_loop_degrades [OF assms] by (simp add: callAPI_def Let_def)

lemma deliveries_no_results [simp]:
  "deliveries batch [] = []" "deliveries batch (replicate n None) = []"
proof -
  show "deliveries batch [] = []" by (simp add: deliveries_def)
  show "deliveries batch (replicate n None) = []"
    by (auto simp: deliveries_def dest!: set_zip_rightD)
qed

lemma processBatch_effect:
  assumes "\<not> processing s" and "queue s \<noteq> []"
  shows "callbacks (processBatch http s)
           = callbacks s @ deliveries (take (batchSize s) (queue s))
                             (fst (callAPI http (take (batchSize s) (queue s))
                                     (processBatch_begin s)))
       \<and> queue (processBatch http s) = drop (batchSize s) (queue s)
       \<and> \<not> processing (processBatch http s)
       \<and> inflight (processBatch http s) = None"
proof -
  let ?batch = "take (batchSize s) (queue s)"
  let ?sb = "processBatch_begin s"
  obtain results s1 where c: "callAPI http ?batch ?sb = (results, s1)" by (cases "callAPI http ?batch ?sb")
  from assms have sb: "inflight ?sb = Some ?batch" "callbacks ?sb = callbacks s"
      "queue ?sb = drop (batchSize s) (queue s)"
    by (simp_all add: processBatch_begin_def)
  from callAPI_same [of ?sb http ?batch] c have "same_outside ?sb s1" by simp
  with sb have s1: "callbacks s1 = callbacks s" "queue s1 = drop (batchSize s) (queue s)"
    by (simp_all add: same_outside_def)
  from assms sb c s1 show ?thesis
    by (simp add: processBatch_def processBatch_finish_def Let_def deliver_callbacks)
qed

text \<open>
  Claim C1, as amended. When every response of the service is of the degradation path
  (failed request, throttled, overloaded, any other status outside 200 to 299, malformed
  body, content that is not an array), processing a batch invokes no completion callback
  at all: the callback log is what it was. The jobs of the batch leave the queue with no
  result, the processing flag is cleared again, and the operation returns a state: no
  exception reaches the caller.
\<close>

theorem processBatch_degradation:
  assumes "\<forall>i. degrades (response (http i))"
    and "\<not> processing s" and "queue s \<noteq> []"
  shows "callbacks (processBatch http s) = callbacks s
       \<and> queue (processBatch http s) = drop (batchSize s) (queue s)
       \<and> \<not> processing (processBatch http s)
       \<and> inflight (processBatch http s) = None"
proof -
  from assms(1) have d: "\<And>i. degrades (response (http i))" by simp
  from callAPI_degrades [where http = http and messages = "take (batchSize s) (queue s)"
                           and s = "processBatch_begin s", OF d]
       processBatch_effect [OF assms(2,3), of http]
  show ?thesis by auto
qed


lemma two_queued_fields:
  "\<not> processing two_queued" "queue two_queued = [job_with_id ''q_1'', job_with_id ''q_2'']"
  "apiKey two_queued = ''key''" "batchSize two_queued = 10" "requests two_queued = []"
  "callbacks two_queued = []" "rateLimitDelayMs two_queued = 13000"
  "retryBaseDelayMs two_queued = 15000" "lastRequestTime two_queued = 0" "clock two_queued = 0"
  by (simp_all add: two_queued_def new_AIClassifier_def)

lemma two_queued_maxRetries: "maxRetries two_queued = 3"
  by (simp add: two_queued_def new_AIClassifier_def)

text \<open>
  Two queued jobs with callbacks, and a service that throttles every request.
\<close>

theorem processBatch_degradation_witness:
  "(\<forall>i. degrades (response (always_throttled i)))
   \<and> map j_id (queue two_queued) = [''q_1'', ''q_2'']
   \<and> callbacks (processBatch always_throttled two_queued) = []
   \<and> queue (processBatch always_throttled two_queued) = []
   \<and> \<not> processing (processBatch always_throttled two_queued)"
proof -
  have h1: "\<forall>i. degrades (response (always_throttled i))"
    by (simp add: always_throttled_def)
  have h2: "\<not> processing two_queued" and h3: "queue two_queued \<noteq> []"
    by (simp_all add: two_queued_fields)
  show ?thesis
    using h1 processBatch_degradation [OF h1 h2 h3]
    by (simp add: two_queued_fields job_with_id_def)
qed

lemma throttled_callbacks: "callbacks (processBatch always_throttled two_queued) = []"
  by code_simp

text \<open>
  Claim C1 as stated fails: with every request throttled, the callback of job \<open>q_1\<close> is
  not invoked exactly once. It is not invoked.
\<close>

theorem degradation_callback_counterexample:
  "j_id (queue two_queued ! 0) = ''q_1''
   \<and> j_onClassified (queue two_queued ! 0) \<noteq> None
   \<and> response (always_throttled 0) = Http 429 (ErrorBody None)
   \<and> count_list (map fst (callbacks (processBatch always_throttled two_queued))) ''q_1'' \<noteq> 1"
  by (simp add: throttled_callbacks two_queued_fields job_with_id_def always_throttled_def)

lemma send_request_requests [simp]:
  "requests (send_request a s) = requests s @ [clock s]"
  by (simp add: send_request_def Let_def)

lemma handle_response_requests:
  "handle_response n attempt resp s = Inr (r, s') \<Longrightarrow> requests s' = requests s"
  by (auto simp: handle_response_def sleep_def Let_def
           split: response.splits body.splits option.splits parsed.splits if_splits)

lemma handle_response_retried:
  "retried resp \<Longrightarrow> attempt < maxRetries s \<Longrightarrow>
   handle_response n attempt resp s \<noteq> Inr (Some results, s3)"
  by (auto simp: handle_response_def Let_def
           split: response.splits body.splits option.splits parsed.splits if_splits)

text \<open>
  A round whose response is of the retried kind, with attempts left, sends one request
  and goes on to the next round.
\<close>

lemma loop_retried_round:
  assumes "attempt < maxRetries s"
    and "retried (response (http (length (requests s))))"
  shows "\<exists>s'. callAPI_loop http n attempt s = callAPI_loop http n (Suc attempt) s'
              \<and> length (requests s') = Suc (length (requests s))
              \<and> maxRetries s' = maxRetries s"
proof -
  let ?s2 = "send_request (http (length (requests s))) s"
  let ?h = "handle_response n attempt (response (http (length (requests s)))) ?s2"
  from assms(1) have lt: "attempt < maxRetries ?s2" by simp
  show ?thesis
  proof (cases ?h)
    case (Inl err)
    let ?s' = "sleep (retryBaseDelayMs s * 2 ^ attempt) ?s2"
    from loop_catch_retry [where http = http, OF assms(1) Inl]
    have "callAPI_loop http n attempt s = callAPI_loop http n (Suc attempt) ?s'" .
    moreover have "length (requests ?s') = Suc (length (requests s))"
      by (simp add: sleep_def)
    moreover have "maxRetries ?s' = maxRetries s"
      by (simp add: sleep_def)
    ultimately show ?thesis by blast
  next
    case (Inr rs)
    obtain r s3 where rs: "rs = (r, s3)" by (cases rs)
    with Inr have h: "?h = Inr (r, s3)" by simp
    from handle_response_retried [OF assms(2) lt] h have "r = None"
      by (cases r) auto
    with h have h': "?h = Inr (None, s3)" by simp
    from assms(1) have "\<not> attempt > maxRetries s" by simp
    from loop_continue [where http = http, OF this h']
    have "callAPI_loop http n attempt s = callAPI_loop http n (Suc attempt) s3" .
    moreover from handle_response_requests [OF h']
    have "length (requests s3) = Suc (length (requests s))" by simp
    moreover from handle_response_maxRetries [OF h']
    have "maxRetries s3 = maxRetries s" by simp
    ultimately show ?thesis by blast
  qed
qed

lemma loop_retried_rounds:
  assumes "attempt + k \<le> maxRetries s"
    and "\<forall>i<k. retried (response (http (length (requests s) + i)))"
  shows "\<exists>s'. callAPI_loop http n attempt s = callAPI_loop http n (attempt + k) s'
              \<and> length (requests s') = length (requests s) + k
              \<and> maxRetries s' = maxRetries s"
  using assms
proof (induction k arbitrary: attempt s)
  case 0
  show ?case by (intro exI [of _ s]) simp
next
  case (Suc k)
  from Suc.prems(1) have lt: "attempt < maxRetries s" by simp
  from Suc.prems(2) have "retried (response (http (length (requests s) + 0)))" by blast
  then have first: "retried (response (http (length (requests s))))" by simp
  from loop_retried_round [where http = http and n = n, OF lt first]
  obtain s1 where s1: "callAPI_loop http n attempt s = callAPI_loop http n (Suc attempt) s1"
      "length (requests s1) = Suc (length (requests s))" "maxRetries s1 = maxRetries s"
    by blast
  from Suc.prems(1) s1(3) have le: "Suc attempt + k \<le> maxRetries s1" by simp
  have rest: "\<forall>i<k. retried (response (http (length (requests s1) + i)))"
  proof (intro allI impI)
    fix i assume "i < k"
    then have "Suc i < Suc k" by simp
    with Suc.prems(2) have "retried (response (http (length (requests s) + Suc i)))" by blast
    with s1(2) show "retried (response (http (length (requests s1) + i)))" by simp
  qed
  from Suc.IH [OF le rest]
  obtain s' where s': "callAPI_loop http n (Suc attempt) s1 = callAPI_loop http n (Suc attempt + k) s'"
      "length (requests s') = length (requests s1) + k" "maxRetries s' = maxRetries s1"
    by blast
  with s1 show ?case by (intro exI [of _ s']) simp
qed

text \<open>
  The first response of a call that is not of the retried kind, when it is a success
  whose content parses, decides the results of the call, at whichever attempt it comes.
\<close>

lemma callAPI_parsed_success:
  assumes "apiKey s \<noteq> []" and "messages \<noteq> []"
    and "k \<le> maxRetries s"
    and "\<forall>i<k. retried (response (http (length (requests s) + i)))"
    and "response (http (length (requests s) + k)) = Http statusCode (Content (Some p))"
    and "200 \<le> statusCode" and "statusCode < 300"
  shows "fst (callAPI http messages s)
           = (case p of NotArray \<Rightarrow> replicate (length messages) None
                      | Arr elems \<Rightarrow> map normalize elems)"
proof -
  let ?s1 = "(waitForRateLimit s)\<lparr>stat_apiCalls := stat_apiCalls (waitForRateLimit s) + 1\<rparr>"
  have r: "requests ?s1 = requests s" "maxRetries ?s1 = maxRetries s"
    by (simp_all add: waitForRateLimit_def sleep_def Let_def)
  from assms(3) r have le: "0 + k \<le> maxRetries ?s1" by simp
  from assms(4) r have ret: "\<forall>i<k. retried (response (http (length (requests ?s1) + i)))"
    by simp
  from loop_retried_rounds [where http = http and n = "length messages", OF le ret]
  obtain s' where s': "callAPI_loop http (length messages) 0 ?s1
                         = callAPI_loop http (length messages) k s'"
      "length (requests s') = length (requests s) + k" "maxRetries s' = maxRetries s"
    using r by auto
  let ?s2 = "send_request (http (length (requests s'))) s'"
  from assms(5,6,7) s'(2)
  have "handle_response (length messages) k (response (http (length (requests s')))) ?s2
          = Inr (Some (case p of NotArray \<Rightarrow> replicate (length messages) None
                               | Arr elems \<Rightarrow> map normalize elems), ?s2)"
    by (simp add: handle_response_def split: parsed.splits)
  moreover from assms(3) s'(3) have "\<not> k > maxRetries s'" by simp
  ultimately
  have "fst (callAPI_loop http (length messages) k s')
          = (case p of NotArray \<Rightarrow> replicate (length messages) None
                     | Arr elems \<Rightarrow> map normalize elems)"
    using loop_return [where http = http and s = s' and attempt = k] by simp
  with s'(1) assms(1,2) show ?thesis by (simp add: callAPI_def Let_def)
qed

text \<open>
  Claim C6, as amended. A call of the service sends its requests one after the other:
  responses of the retried kind are followed by another attempt, and the first response
  that is not of that kind ends the call. When that response, at attempt \<open>k\<close> of the
  call (the first attempt or any retry), is a success whose content parses, a content
  that is not an array gives no job a result, and an array is applied position by
  position whatever its length: job \<open>i\<close> of the batch is called back with the normalised
  element \<open>i\<close> when the array has an element \<open>i\<close> that is an object and the job has a
  callback. Jobs past the end of a shorter array get no result; elements past the end of
  the batch are dropped.
\<close>

theorem processBatch_applies_by_position:
  assumes "\<not> processing s" and "queue s \<noteq> []" and "apiKey s \<noteq> []" and "0 < batchSize s"
    and "k \<le> maxRetries s"
    and "\<forall>i<k. retried (response (http (length (requests s) + i)))"
    and "response (http (length (requests s) + k)) = Http statusCode (Content (Some p))"
    and "200 \<le> statusCode" and "statusCode < 300"
  shows "callbacks (processBatch http s)
           = callbacks s @ (case p of
                              NotArray \<Rightarrow> []
                            | Arr elems \<Rightarrow>
                                deliveries (take (batchSize s) (queue s)) (map normalize elems))"
proof -
  let ?batch = "take (batchSize s) (queue s)"
  let ?sb = "processBatch_begin s"
  from assms(1,2,3) have sb: "apiKey ?sb \<noteq> []" "requests ?sb = requests s"
      "maxRetries ?sb = maxRetries s"
    by (simp_all add: processBatch_begin_def)
  from assms(2,4) have ne: "?batch \<noteq> []" by (cases "queue s") simp_all
  from assms(5) sb(3) have le: "k \<le> maxRetries ?sb" by simp
  from assms(6) sb(2) have ret: "\<forall>i<k. retried (response (http (length (requests ?sb) + i)))"
    by simp
  from assms(7) sb(2)
  have ok: "response (http (length (requests ?sb) + k)) = Http statusCode (Content (Some p))"
    by simp
  from callAPI_parsed_success [where http = http and s = ?sb, OF sb(1) ne le ret ok assms(8,9)]
  have "fst (callAPI http ?batch ?sb)
          = (case p of NotArray \<Rightarrow> replicate (length ?batch) None
                     | Arr elems \<Rightarrow> map normalize elems)" .
  with processBatch_effect [OF assms(1,2), of http] show ?thesis
    by (simp split: parsed.splits)
qed

lemma short_array_callbacks:
  "map fst (callbacks (processBatch short_array two_queued)) = [''q_1'']"
  by code_simp

text \<open>
  Two queued jobs; the service is overloaded at the first request and answers the second
  one, the first retry, with an array of one element.
\<close>

theorem processBatch_applies_by_position_witness:
  "callbacks (processBatch overloaded_then_short_array two_queued)
     = deliveries [job_with_id ''q_1'', job_with_id ''q_2''] [normalize (Obj one_element)]"
proof -
  have k: "(1::nat) \<le> maxRetries two_queued"
    by (simp add: two_queued_maxRetries)
  have r: "\<forall>i<(1::nat). retried (response (overloaded_then_short_array (length (requests two_queued) + i)))"
    by (simp add: two_queued_fields overloaded_then_short_array_def)
  have h: "response (overloaded_then_short_array (length (requests two_queued) + 1))
             = Http 200 (Content (Some (Arr [Obj one_element])))"
    by (simp add: two_queued_fields overloaded_then_short_array_def)
  show ?thesis
    using processBatch_applies_by_position
            [where s = two_queued and http = overloaded_then_short_array and k = 1,
             OF _ _ _ _ k r h]
    by (simp add: two_queued_fields)
qed

text \<open>
  Claim C6 as stated fails: a batch of two jobs and a response array of one element is
  not treated as a failure of the whole batch. The first job is called back with a
  result.
\<close>

theorem partial_application_counterexample:
  "length (queue two_queued) = 2
   \<and> response (short_array 0) = Http 200 (Content (Some (Arr [Obj one_element])))
   \<and> map fst (callbacks (processBatch short_array two_queued)) = [''q_1'']"
  by (simp add: short_array_callbacks two_queued_fields short_array_def)

subsection \<open>Spacing of the requests\<close>

lemma spaced_snoc:
  "spaced d (ts @ [t]) = (spaced d ts \<and> (ts = [] \<or> t - last ts \<ge> d))"
  by (induction d ts rule: spaced.induct) auto

lemma backoff_ge: "(0::int) \<le> d \<Longrightarrow> d \<le> b \<Longrightarrow> d \<le> b * 2 ^ k"
proof -
  assume d: "0 \<le> d" and b: "d \<le> b"
  have "(1::int) \<le> 2 ^ k" by simp
  with d b have "b * 1 \<le> b * 2 ^ k" by (intro mult_left_mono) auto
  with b show ?thesis by simp
qed

lemma send_request_ready:
  assumes "ready d s" and "0 \<le> latency a"
  shows "trace_ok d (send_request a s) \<and> requests (send_request a s) \<noteq> []
       \<and> last (requests (send_request a s)) \<le> clock (send_request a s)
       \<and> retryBaseDelayMs (send_request a s) = retryBaseDelayMs s"
  using assms
  by (auto simp: ready_def trace_ok_def send_request_def Let_def spaced_snoc split: if_splits)

lemma sleep_ready:
  assumes "trace_ok d s" and "requests s \<noteq> []" and "last (requests s) \<le> clock s"
    and "0 \<le> d" and "d \<le> ms"
  shows "ready d (sleep ms s)"
  using assms by (auto simp: ready_def trace_ok_def sleep_def)

lemma handle_response_continue_ready:
  assumes "handle_response n attempt resp s = Inr (None, s3)"
    and "trace_ok d s" and "requests s \<noteq> []" and "last (requests s) \<le> clock s"
    and "0 \<le> d" and "d \<le> retryBaseDelayMs s"
    and "\<And>ms. retry_hint resp = Some ms \<Longrightarrow> d \<le> ms"
  shows "ready d s3 \<and> retryBaseDelayMs s3 = retryBaseDelayMs s"
proof (cases resp)
  case Failed
  with assms(1) show ?thesis by (simp add: handle_response_def)
next
  case (Http statusCode b)
  from backoff_ge [OF assms(5,6)] have base: "d \<le> retryBaseDelayMs s * 2 ^ attempt" .
  show ?thesis
  proof (cases "statusCode = 429")
    case True
    define backoffMs where
      "backoffMs = (case parseRetryAfter b of Some retryAfter \<Rightarrow> retryAfter
                    | None \<Rightarrow> retryBaseDelayMs s * 2 ^ attempt)"
    from assms(7) Http True base have ge: "d \<le> backoffMs"
      by (cases "parseRetryAfter b") (simp_all add: backoffMs_def)
    from assms(1) Http True
    have s3: "s3 = (sleep backoffMs s)\<lparr>lastRequestTime := clock (sleep backoffMs s)\<rparr>"
      by (simp add: handle_response_def Let_def backoffMs_def split: if_splits)
    from sleep_ready [OF assms(2,3,4,5) ge] show ?thesis
      by (auto simp: s3 ready_def trace_ok_def sleep_def split: if_splits)
  next
    case False
    with assms(1) Http have s3: "s3 = sleep (retryBaseDelayMs s * 2 ^ attempt) s"
      by (simp add: handle_response_def Let_def split: if_splits body.splits option.splits
            parsed.splits)
    from sleep_ready [OF assms(2,3,4,5) base] show ?thesis by (simp add: s3 sleep_def)
  qed
qed

lemma handle_response_return_ok:
  assumes "handle_response n attempt resp s = Inr (Some results, s3)" and "trace_ok d s"
  shows "trace_ok d s3"
  using assms
  by (auto simp: handle_response_def trace_ok_def Let_def
           split: response.splits body.splits option.splits parsed.splits if_splits)


lemma callAPI_loop_trace_ok:
  assumes d: "0 \<le> d"
    and lat0: "\<forall>i. 0 \<le> latency (http i)"
    and hint0: "\<forall>i ms. retry_hint (response (http i)) = Some ms \<longrightarrow> d \<le> ms"
  shows "ready d s \<Longrightarrow> d \<le> retryBaseDelayMs s \<Longrightarrow>
         trace_ok d (snd (callAPI_loop http n attempt s))"
proof (induction attempt s rule: callAPI_loop_rounds [where http = http and n = n])
  case (round attempt s)
  from lat0 have lat: "\<And>i. 0 \<le> latency (http i)" by simp
  from hint0 have hint: "\<And>i ms. retry_hint (response (http i)) = Some ms \<Longrightarrow> d \<le> ms"
    by simp
  let ?a = "http (length (requests s))"
  let ?s2 = "send_request ?a s"
  from send_request_ready [OF round.prems(1) lat, of "length (requests s)"]
  have s2: "trace_ok d ?s2" "requests ?s2 \<noteq> []" "last (requests ?s2) \<le> clock ?s2"
      "retryBaseDelayMs ?s2 = retryBaseDelayMs s"
    by simp_all
  show ?case
  proof (cases "attempt > maxRetries s")
    case True
    with round.prems(1) show ?thesis by (simp add: loop_done ready_def)
  next
    case False
    then have le: "attempt \<le> maxRetries s" by simp
    show ?thesis
    proof (cases "handle_response n attempt (response ?a) ?s2")
      case (Inl err)
      show ?thesis
      proof (cases "attempt < maxRetries s")
        case True
        from backoff_ge [OF d round.prems(2)]
        have "d \<le> retryBaseDelayMs s * 2 ^ attempt" .
        from sleep_ready [OF s2(1,2,3) d this]
        have "ready d (sleep (retryBaseDelayMs s * 2 ^ attempt) ?s2)" .
        moreover have "d \<le> retryBaseDelayMs (sleep (retryBaseDelayMs s * 2 ^ attempt) ?s2)"
          using round.prems(2) s2(4) by (simp add: sleep_def)
        ultimately show ?thesis
          using round.IH(2) [OF True Inl]
          by (simp add: loop_catch_retry [where http = http, OF True Inl])
      next
        case nomore: False
        with le have "attempt = maxRetries s" by simp
        from loop_catch_giveup [where http = http, OF this Inl] s2(1)
        show ?thesis by (simp add: trace_ok_def)
      qed
    next
      case (Inr p)
      obtain r s3 where p: "p = (r, s3)" by (cases p)
      show ?thesis
      proof (cases r)
        case None
        with Inr p have h: "handle_response n attempt (response ?a) ?s2 = Inr (None, s3)" by simp
        from handle_response_continue_ready [OF h s2(1,2,3) d _ hint] round.prems(2) s2(4)
        have "ready d s3" "d \<le> retryBaseDelayMs s3" by simp_all
        with round.IH(1) [OF le h] loop_continue [where http = http, OF False h]
        show ?thesis by simp
      next
        case (Some results)
        with Inr p have h: "handle_response n attempt (response ?a) ?s2 = Inr (Some results, s3)"
          by simp
        from handle_response_return_ok [OF h s2(1)] loop_return [where http = http, OF False h]
        show ?thesis by simp
      qed
    qed
  qed
qed

lemma callAPI_trace_ok:
  assumes "trace_ok d s" and "0 \<le> d" and "d \<le> rateLimitDelayMs s"
    and "d \<le> retryBaseDelayMs s"
    and lat: "\<forall>i. 0 \<le> latency (http i)"
    and hint: "\<forall>i ms. retry_hint (response (http i)) = Some ms \<longrightarrow> d \<le> ms"
  shows "trace_ok d (snd (callAPI http messages s))"
proof (cases "apiKey s = [] \<or> messages = []")
  case True
  with assms(1) show ?thesis by (auto simp: callAPI_def)
next
  case False
  let ?s1 = "(waitForRateLimit s)\<lparr>stat_apiCalls := stat_apiCalls (waitForRateLimit s) + 1\<rparr>"
  from assms(1,2,3) have "ready d ?s1"
    by (auto simp: ready_def trace_ok_def waitForRateLimit_def sleep_def Let_def split: if_splits)
  moreover from assms(4) have "d \<le> retryBaseDelayMs ?s1"
    by (simp add: waitForRateLimit_def sleep_def Let_def)
  ultimately have "trace_ok d (snd (callAPI_loop http (length messages) 0 ?s1))"
    using callAPI_loop_trace_ok [where http = http and d = d, OF assms(2) lat hint] by blast
  with False show ?thesis by (simp add: callAPI_def Let_def)
qed

lemma deliver_trace [simp]:
  "requests (deliver batch results s) = requests s"
  "lastRequestTime (deliver batch results s) = lastRequestTime s"
  "clock (deliver batch results s) = clock s"
  "rateLimitDelayMs (deliver batch results s) = rateLimitDelayMs s"
  "retryBaseDelayMs (deliver batch results s) = retryBaseDelayMs s"
  by (induction batch arbitrary: results s; simp add: Let_def split: option.splits list.splits)+

text \<open>
  Claim C7, as amended. Let \<open>d\<close> be a non-negative delay that is at most
  \<open>rateLimitDelayMs\<close>, at most \<open>retryBaseDelayMs\<close>, and at most every delay that a
  throttle response suggests (the suggested seconds in milliseconds, rounded up, plus
  1000). Then processing a batch keeps the trace of requests sound for \<open>d\<close>: no two start
  times, across the batches and retries so far, are closer together than \<open>d\<close>. Requests
  take a non-negative time. The two delays of the configuration are left unchanged, so
  the property carries over to any sequence of batches. With \<open>d = rateLimitDelayMs\<close> this
  is the claim for a service that never suggests a retry sooner than \<open>rateLimitDelayMs\<close>
  and a base retry delay that is not shorter than it.
\<close>

theorem processBatch_spacing:
  assumes "trace_ok d s" and "0 \<le> d" and "d \<le> rateLimitDelayMs s"
    and "d \<le> retryBaseDelayMs s"
    and "\<forall>i. 0 \<le> latency (http i)"
    and "\<forall>i ms. retry_hint (response (http i)) = Some ms \<longrightarrow> d \<le> ms"
  shows "trace_ok d (processBatch http s)
       \<and> rateLimitDelayMs (processBatch http s) = rateLimitDelayMs s
       \<and> retryBaseDelayMs (processBatch http s) = retryBaseDelayMs s"
proof (cases "processing s \<or> queue s = []")
  case True
  with assms(1) show ?thesis by (auto simp: processBatch_def)
next
  case False
  let ?batch = "take (batchSize s) (queue s)"
  let ?sb = "processBatch_begin s"
  obtain results s1 where c: "callAPI http ?batch ?sb = (results, s1)"
    by (cases "callAPI http ?batch ?sb")
  from False assms(1,3,4)
  have sb: "trace_ok d ?sb" "d \<le> rateLimitDelayMs ?sb" "d \<le> retryBaseDelayMs ?sb"
      "inflight ?sb = Some ?batch" "rateLimitDelayMs ?sb = rateLimitDelayMs s"
      "retryBaseDelayMs ?sb = retryBaseDelayMs s"
    by (auto simp: processBatch_begin_def trace_ok_def)
  from callAPI_trace_ok [where http = http and messages = ?batch,
                          OF sb(1) assms(2) sb(2,3) assms(5,6)] c
  have t1: "trace_ok d s1" by simp
  from callAPI_same [where s = ?sb and http = http and messages = ?batch] c sb(5,6)
  have k: "rateLimitDelayMs s1 = rateLimitDelayMs s" "retryBaseDelayMs s1 = retryBaseDelayMs s"
    by (simp_all add: same_outside_def)
  from False sb(4) c t1 k show ?thesis
    by (simp add: processBatch_def processBatch_finish_def Let_def trace_ok_def)
qed

lemma twenty_seconds_requests:
  "requests (processBatch retry_in_twenty_seconds two_queued) = [13000, 34100]"
  by code_simp

text \<open>
  The default configuration with \<open>d = rateLimitDelayMs = 13000\<close>, and a throttle response
  that suggests twenty seconds: the retry starts 21100 ms after the first request.
\<close>

theorem processBatch_spacing_witness:
  "rateLimitDelayMs two_queued = 13000
   \<and> retry_hint (response (retry_in_twenty_seconds 0)) = Some 21000
   \<and> requests (processBatch retry_in_twenty_seconds two_queued) = [13000, 34100]
   \<and> trace_ok 13000 (processBatch retry_in_twenty_seconds two_queued)"
proof -
  have h1: "trace_ok 13000 two_queued"
    by (simp add: trace_ok_def two_queued_fields)
  have h2: "(0::int) \<le> 13000" by simp
  have h3: "13000 \<le> rateLimitDelayMs two_queued"
    and h4: "13000 \<le> retryBaseDelayMs two_queued"
    by (simp_all add: two_queued_fields)
  have h5: "\<forall>i. 0 \<le> latency (retry_in_twenty_seconds i)"
    by (simp add: retry_in_twenty_seconds_def)
  have h6: "\<forall>i ms. retry_hint (response (retry_in_twenty_seconds i)) = Some ms
                   \<longrightarrow> 13000 \<le> ms"
    by (auto simp: retry_in_twenty_seconds_def parseRetryAfter_def)
  have h7: "retry_hint (response (retry_in_twenty_seconds 0)) = Some 21000"
    by (simp add: retry_in_twenty_seconds_def parseRetryAfter_def)
  show ?thesis
    using processBatch_spacing [OF h1 h2 h3 h4 h5 h6] h7
    by (simp add: two_queued_fields twenty_seconds_requests)
qed

lemma one_second_requests:
  "requests (processBatch retry_in_one_second two_queued) = [13000, 15100]"
  by code_simp

text \<open>
  Claim C7 as stated fails: after a throttle response that suggests to try again in one
  second, the retry starts 2100 ms after the first request, with \<open>rateLimitDelayMs\<close> at
  13000.
\<close>

theorem retry_spacing_counterexample:
  "rateLimitDelayMs two_queued = 13000
   \<and> requests (processBatch retry_in_one_second two_queued) = [13000, 15100]
   \<and> \<not> spaced (rateLimitDelayMs two_queued) (requests (processBatch retry_in_one_second two_queued))"
  by (simp add: one_second_requests two_queued_fields)

subsection \<open>Collecting a batch\<close>

lemma run_snoc: "run (es @ [e]) s = step (run es s) e"
  by (simp add: run_def)

lemma enqueued_snoc:
  "enqueued (es @ [e]) = enqueued es @ (case e of Enqueue j \<Rightarrow> [j] | Elapse ms \<Rightarrow> [])"
  by (induction es rule: enqueued.induct) (auto split: event.splits)

lemma elapsed_ms_snoc:
  "elapsed_ms (es @ [e]) = elapsed_ms es + (case e of Enqueue j \<Rightarrow> 0 | Elapse ms \<Rightarrow> ms)"
  by (induction es rule: elapsed_ms.induct) (auto split: event.splits)

lemma elapsed_ms_nonneg: "\<forall>e \<in> set es. valid_event e \<Longrightarrow> 0 \<le> elapsed_ms es"
  by (induction es rule: elapsed_ms.induct) auto

lemma collecting_run:
  assumes "idle s"
  shows "\<forall>e \<in> set es. valid_event e \<Longrightarrow> elapsed_ms es < batchDelayMs s \<Longrightarrow>
         length (enqueued es) < batchSize s \<Longrightarrow> collecting s es (run es s)"
proof (induction es rule: rev_induct)
  case Nil
  from assms show ?case by (simp add: collecting_def idle_def run_def)
next
  case (snoc e es)
  from snoc.prems(1) have v: "\<forall>e \<in> set es. valid_event e" and ve: "valid_event e" by simp_all
  from elapsed_ms_nonneg [OF v] have nn: "0 \<le> elapsed_ms es" .
  show ?case
  proof (cases e)
    case (Enqueue j)
    with snoc.prems have "elapsed_ms es < batchDelayMs s" "length (enqueued es) < batchSize s"
      by (simp_all add: elapsed_ms_snoc enqueued_snoc)
    from snoc.IH [OF v this] have c: "collecting s es (run es s)" .
    from ve Enqueue have vj: "j_body j \<noteq> []" "\<not> length (trim (j_body j)) < 3"
      by (simp_all add: valid_job_def)
    from snoc.prems(3) Enqueue have lt: "Suc (length (enqueued es)) < batchSize s"
      by (simp add: enqueued_snoc)
    from c vj lt nn show ?thesis
      by (auto simp: collecting_def run_snoc Enqueue queueMessage_def Let_def enqueued_snoc
            elapsed_ms_snoc split: if_splits)
  next
    case (Elapse ms)
    with ve have ms: "0 \<le> ms" by simp
    with snoc.prems Elapse have "elapsed_ms es < batchDelayMs s" "length (enqueued es) < batchSize s"
      by (simp_all add: elapsed_ms_snoc enqueued_snoc)
    from snoc.IH [OF v this] have c: "collecting s es (run es s)" .
    from snoc.prems(2) Elapse have tot: "elapsed_ms es + ms < batchDelayMs s"
      by (simp add: elapsed_ms_snoc)
    from c tot show ?thesis
      by (auto simp: collecting_def run_snoc Elapse fire_due_def Let_def enqueued_snoc
            elapsed_ms_snoc split: if_splits option.splits)
  qed
qed

text \<open>
  Claim C8. Start from an idle queue of an enabled classifier and let messages be
  enqueued while time passes, less time in all than the batch window; every job has a
  body of at least three characters after trimming, so none is skipped. As long as fewer
  than \<open>batchSize\<close> jobs have been enqueued, nothing is dispatched: no batch is in
  flight, the processing flag is off, all jobs are in the queue, and once there is a job
  the batch timer is pending with its deadline still ahead. When one more enqueue makes
  the count reach \<open>batchSize\<close>, that very call cancels the timer and dispatches the
  batch of all the jobs, before the window has elapsed. Dispatch is \<open>_processBatch\<close>
  taking the batch off the queue; the request to the service then waits for the rate
  limit.
\<close>

theorem queueMessage_batching:
  assumes "idle s" and "\<forall>e \<in> set es. valid_event e" and "elapsed_ms es < batchDelayMs s"
    and "length (enqueued es) < batchSize s" and "valid_job j"
  shows "\<not> processing (run es s) \<and> inflight (run es s) = None \<and> queue (run es s) = enqueued es
       \<and> (enqueued es \<noteq> [] \<longrightarrow>
            (\<exists>t. batchTimer (run es s) = Some t \<and> clock (run es s) < t))
       \<and> (Suc (length (enqueued es)) = batchSize s \<longrightarrow>
            processing (run (es @ [Enqueue j]) s)
            \<and> inflight (run (es @ [Enqueue j]) s) = Some (enqueued es @ [j])
            \<and> queue (run (es @ [Enqueue j]) s) = []
            \<and> batchTimer (run (es @ [Enqueue j]) s) = None
            \<and> clock (run (es @ [Enqueue j]) s) < clock s + batchDelayMs s)"
proof -
  from collecting_run [OF assms(1,2,3,4)] have c: "collecting s es (run es s)" .
  from assms(5) have vj: "j_body j \<noteq> []" "\<not> length (trim (j_body j)) < 3"
    by (simp_all add: valid_job_def)
  from c assms(3) have first: "\<not> processing (run es s) \<and> inflight (run es s) = None
       \<and> queue (run es s) = enqueued es
       \<and> (enqueued es \<noteq> [] \<longrightarrow>
            (\<exists>t. batchTimer (run es s) = Some t \<and> clock (run es s) < t))"
    by (auto simp: collecting_def)
  have second: "processing (run (es @ [Enqueue j]) s)
            \<and> inflight (run (es @ [Enqueue j]) s) = Some (enqueued es @ [j])
            \<and> queue (run (es @ [Enqueue j]) s) = []
            \<and> batchTimer (run (es @ [Enqueue j]) s) = None
            \<and> clock (run (es @ [Enqueue j]) s) < clock s + batchDelayMs s"
    if full: "Suc (length (enqueued es)) = batchSize s"
    using c vj full assms(3)
    by (auto simp: collecting_def run_snoc queueMessage_def processBatch_begin_def Let_def
          split: if_splits)
  from first second show ?thesis by blast
qed

lemma report_body_trim: "trim ''Is the report done?'' = ''Is the report done?''"
  by code_simp

lemma job_with_id_valid: "valid_job (job_with_id i)"
  by (simp add: valid_job_def job_with_id_def report_body_trim)

lemma nine_arrivals_counts:
  "elapsed_ms nine_arrivals = 2000" "length (enqueued nine_arrivals) = 9"
  by (simp_all add: nine_arrivals_def)

text \<open>
  Nine messages within two seconds at a new classifier (window 3 s, batch size 10), then
  a tenth.
\<close>

theorem queueMessage_batching_witness:
  "idle (new_AIClassifier ''key'' 0)
   \<and> elapsed_ms nine_arrivals = 2000 \<and> batchDelayMs (new_AIClassifier ''key'' 0) = 3000
   \<and> length (enqueued nine_arrivals) = 9 \<and> batchSize (new_AIClassifier ''key'' 0) = 10
   \<and> \<not> processing (run nine_arrivals (new_AIClassifier ''key'' 0))
   \<and> inflight (run nine_arrivals (new_AIClassifier ''key'' 0)) = None
   \<and> queue (run nine_arrivals (new_AIClassifier ''key'' 0)) = enqueued nine_arrivals
   \<and> processing (run (nine_arrivals @ [Enqueue (job_with_id ''q_10'')])
                    (new_AIClassifier ''key'' 0))
   \<and> inflight (run (nine_arrivals @ [Enqueue (job_with_id ''q_10'')])
                  (new_AIClassifier ''key'' 0))
       = Some (enqueued nine_arrivals @ [job_with_id ''q_10''])
   \<and> queue (run (nine_arrivals @ [Enqueue (job_with_id ''q_10'')])
               (new_AIClassifier ''key'' 0)) = []
   \<and> batchTimer (run (nine_arrivals @ [Enqueue (job_with_id ''q_10'')])
                    (new_AIClassifier ''key'' 0)) = None"
proof -
  have h1: "idle (new_AIClassifier ''key'' 0)"
    by (simp add: idle_def new_AIClassifier_def)
  have h2: "\<forall>e \<in> set nine_arrivals. valid_event e"
    by (simp add: nine_arrivals_def job_with_id_valid)
  have h3: "elapsed_ms nine_arrivals < batchDelayMs (new_AIClassifier ''key'' 0)"
    and h4: "length (enqueued nine_arrivals) < batchSize (new_AIClassifier ''key'' 0)"
    by (simp_all add: nine_arrivals_counts new_AIClassifier_def)
  have h5: "valid_job (job_with_id ''q_10'')" by (rule job_with_id_valid)
  have full: "Suc (length (enqueued nine_arrivals)) = batchSize (new_AIClassifier ''key'' 0)"
    by (simp add: nine_arrivals_counts new_AIClassifier_def)
  show ?thesis
    using h1 queueMessage_batching [OF h1 h2 h3 h4 h5] full
    by (simp add: nine_arrivals_counts new_AIClassifier_def)
qed

end
